theory Spec2Isabelle
  imports Complex_Main "HOL-Library.AList"
begin

section \<open>WiFiMonitor: data model\<close>

text \<open>
  The class \<^verbatim>\<open>WiFiMonitor\<close> of \<^verbatim>\<open>wifi-monitor.py\<close> is embedded with explicit state
  passing. Every reading of the outside world (the wall clock \<^verbatim>\<open>datetime.now()\<close>, the
  answers of \<^verbatim>\<open>check_connection\<close>, the outcome of the speed test) is an argument of
  the function that reads it.

  A naive \<^verbatim>\<open>datetime\<close> is a number of seconds on the wall clock, counted from a
  midnight; a \<^verbatim>\<open>timedelta\<close> is a signed number of seconds. Measured speeds are finite
  floats and are modelled as reals (rounding is not modelled); a slot of
  \<^verbatim>\<open>speed_extremes\<close> holds a finite number or \<^verbatim>\<open>float('inf')\<close>.
\<close>

type_synonym datetime = int
type_synonym timedelta = int

definition hour_of :: "datetime \<Rightarrow> nat" where
  "hour_of t = nat ((t div 3600) mod 24)"

datatype speedval = Fin real | PosInf

text \<open>\<^verbatim>\<open>x > slot\<close> and \<^verbatim>\<open>x < slot\<close> for a finite float \<open>x\<close>.\<close>

fun exceeds :: "real \<Rightarrow> speedval \<Rightarrow> bool" where
  "exceeds x (Fin y) = (x > y)"
| "exceeds x PosInf = False"

fun undercuts :: "real \<Rightarrow> speedval \<Rightarrow> bool" where
  "undercuts x (Fin y) = (x < y)"
| "undercuts x PosInf = True"

record extreme =
  speed :: speedval
  ex_timestamp :: "datetime option"

record extremes =
  max_download :: extreme
  min_download :: extreme
  max_upload :: extreme
  min_upload :: extreme

record sample =
  timestamp :: datetime
  hour :: nat
  download :: real
  upload :: real

record disconnection =
  start :: datetime
  end_time :: datetime
  duration :: timedelta

record hourly_average =
  avg_download :: real
  avg_upload :: real
  samples :: nat

record monitor =
  speeds :: "sample list"
  disconnections :: "disconnection list"
  hourly_averages :: "(nat \<times> hourly_average) list"
  current_hour :: nat
  speed_extremes :: extremes

datatype error = StatisticsError | ValueError

text \<open>\<^verbatim>\<open>__init__\<close>; \<open>now\<close> is the clock reading that sets \<^verbatim>\<open>current_hour\<close>.\<close>

definition init :: "datetime \<Rightarrow> monitor" where
  "init now =
     \<lparr>speeds = [], disconnections = [], hourly_averages = [],
      current_hour = hour_of now,
      speed_extremes =
        \<lparr>max_download = \<lparr>speed = Fin 0, ex_timestamp = None\<rparr>,
         min_download = \<lparr>speed = PosInf, ex_timestamp = None\<rparr>,
         max_upload = \<lparr>speed = Fin 0, ex_timestamp = None\<rparr>,
         min_upload = \<lparr>speed = PosInf, ex_timestamp = None\<rparr>\<rparr>\<rparr>"

section \<open>Speed extremes\<close>

text \<open>
  \<^verbatim>\<open>update_speed_extremes(download_speed, upload_speed)\<close>: four independent
  compare-and-replace steps, in the order of the source. \<open>current_time\<close> is the clock
  reading taken on entry.
\<close>

definition update_speed_extremes :: "real \<Rightarrow> real \<Rightarrow> datetime \<Rightarrow> monitor \<Rightarrow> monitor" where
  "update_speed_extremes download_speed upload_speed current_time st =
     (let e0 = speed_extremes st;
          e1 = (if exceeds download_speed (speed (max_download e0))
                then e0\<lparr>max_download := \<lparr>speed = Fin download_speed, ex_timestamp = Some current_time\<rparr>\<rparr>
                else e0);
          e2 = (if undercuts download_speed (speed (min_download e1))
                then e1\<lparr>min_download := \<lparr>speed = Fin download_speed, ex_timestamp = Some current_time\<rparr>\<rparr>
                else e1);
          e3 = (if exceeds upload_speed (speed (max_upload e2))
                then e2\<lparr>max_upload := \<lparr>speed = Fin upload_speed, ex_timestamp = Some current_time\<rparr>\<rparr>
                else e2);
          e4 = (if undercuts upload_speed (speed (min_upload e3))
                then e3\<lparr>min_upload := \<lparr>speed = Fin upload_speed, ex_timestamp = Some current_time\<rparr>\<rparr>
                else e3)
      in st\<lparr>speed_extremes := e4\<rparr>)"

text \<open>
  A sequence of measurements fed to \<^verbatim>\<open>update_speed_extremes\<close>, oldest first: each
  entry is (download, upload, clock reading).
\<close>

fun feed :: "(real \<times> real \<times> datetime) list \<Rightarrow> monitor \<Rightarrow> monitor" where
  "feed [] st = st"
| "feed ((d, u, t) # ms) st = feed ms (update_speed_extremes d u t st)"

text \<open>
  \<^verbatim>\<open>measure_speed\<close>: the outcome of the speed test is \<open>None\<close> when the library raises
  (the \<^verbatim>\<open>except\<close> branch returns \<^verbatim>\<open>(None, None)\<close> and leaves the state alone), and
  otherwise the two speeds in Mbps with the clock reading taken inside
  \<^verbatim>\<open>update_speed_extremes\<close>.
\<close>

fun measure_speed ::
  "(real \<times> real \<times> datetime) option \<Rightarrow> monitor \<Rightarrow> (real option \<times> real option) \<times> monitor" where
  "measure_speed None st = ((None, None), st)"
| "measure_speed (Some (download_speed, upload_speed, t)) st =
     ((Some download_speed, Some upload_speed),
      update_speed_extremes download_speed upload_speed t st)"

text \<open>Python truthiness of a value that is \<^verbatim>\<open>None\<close> or a float: \<^verbatim>\<open>None\<close> and \<^verbatim>\<open>0.0\<close> are false.\<close>

fun truthy :: "real option \<Rightarrow> bool" where
  "truthy None = False"
| "truthy (Some x) = (x \<noteq> 0)"

section \<open>Disconnections\<close>

text \<open>
  \<^verbatim>\<open>track_disconnection(start_time)\<close>. The list holds the successive answers of
  \<^verbatim>\<open>check_connection\<close>; the loop leaves at the first \<open>True\<close>. When the answers run out
  with no \<open>True\<close> the call has not returned: \<open>None\<close>. \<open>now\<close> is the clock reading
  taken after the loop.
\<close>

fun track_disconnection :: "datetime \<Rightarrow> bool list \<Rightarrow> datetime \<Rightarrow> monitor \<Rightarrow> monitor option" where
  "track_disconnection start_time [] now st = None"
| "track_disconnection start_time (answer # answers) now st =
     (if answer
      then Some (st\<lparr>disconnections := disconnections st @
             [\<lparr>start = start_time, end_time = now, duration = now - start_time\<rparr>]\<rparr>)
      else track_disconnection start_time answers now st)"

definition calculate_total_downtime :: "monitor \<Rightarrow> timedelta" where
  "calculate_total_downtime st =
     fold (\<lambda>d total_duration. total_duration + duration d) (disconnections st) 0"

section \<open>Hourly averages\<close>

text \<open>\<^verbatim>\<open>statistics.mean\<close> raises \<^verbatim>\<open>StatisticsError\<close> on an empty list.\<close>

definition mean :: "real list \<Rightarrow> error + real" where
  "mean xs = (if xs = [] then Inl StatisticsError else Inr (sum_list xs / real (length xs)))"

text \<open>
  \<^verbatim>\<open>calculate_hourly_average\<close>. The dictionary \<^verbatim>\<open>hourly_averages\<close> is an association
  list; an assignment to a key replaces the entry in place or appends a new one, as a
  Python dictionary does.
\<close>

definition calculate_hourly_average :: "monitor \<Rightarrow> error + monitor" where
  "calculate_hourly_average st =
     (if speeds st = [] then Inr st
      else
        let hour_speeds = filter (\<lambda>s. hour s = current_hour st) (speeds st) in
        if hour_speeds = [] then Inr st
        else
          (case mean (map download hour_speeds) of
             Inl e \<Rightarrow> Inl e
           | Inr mean_download \<Rightarrow>
               (case mean (map upload hour_speeds) of
                  Inl e \<Rightarrow> Inl e
                | Inr mean_upload \<Rightarrow>
                    Inr (st\<lparr>hourly_averages :=
                           AList.update (current_hour st)
                             \<lparr>avg_download = mean_download, avg_upload = mean_upload,
                              samples = length hour_speeds\<rparr>
                             (hourly_averages st)\<rparr>))))"

section \<open>Pattern analysis\<close>

text \<open>
  \<^verbatim>\<open>analyze_patterns\<close> hands the log to pandas. The library calls are modelled by what
  they compute:
  \<^item> \<^verbatim>\<open>df.groupby(df['timestamp'].dt.hour)\<close> makes one group per hour that occurs, the
    keys in ascending order (\<^verbatim>\<open>sort=True\<close> is the default);
  \<^item> the aggregation \<^verbatim>\<open>'mean'\<close> is the arithmetic mean of the group;
  \<^item> the aggregation \<^verbatim>\<open>'std'\<close> is the sample standard deviation (\<^verbatim>\<open>ddof=1\<close>), which is
    \<^verbatim>\<open>NaN\<close> for a group of fewer than two rows: \<open>None\<close> in the model;
  \<^item> \<^verbatim>\<open>Series.idxmax\<close> and \<^verbatim>\<open>Series.idxmin\<close> return the label of the first row that
    holds the extreme value and raise \<^verbatim>\<open>ValueError\<close> on an empty series;
  \<^item> \<^verbatim>\<open>Series.mean\<close> skips \<^verbatim>\<open>NaN\<close> entries (\<^verbatim>\<open>skipna=True\<close>) and is \<^verbatim>\<open>NaN\<close> when
    nothing is left.
\<close>

record hour_pattern =
  pattern_hour :: nat
  download_mean :: real
  download_std :: "real option"
  upload_mean :: real
  upload_std :: "real option"

record 'a per_direction =
  for_download :: 'a
  for_upload :: 'a

record patterns =
  peak_hours :: "nat per_direction"
  low_hours :: "nat per_direction"
  stability :: "real option per_direction"
  hourly_patterns :: "hour_pattern list"

definition group_keys :: "sample list \<Rightarrow> nat list" where
  "group_keys df = sort (remdups (map (\<lambda>s. hour_of (timestamp s)) df))"

definition agg_mean :: "real list \<Rightarrow> real" where
  "agg_mean xs = sum_list xs / real (length xs)"

definition agg_std :: "real list \<Rightarrow> real option" where
  "agg_std xs =
     (if length xs < 2 then None
      else Some (sqrt (sum_list (map (\<lambda>x. (x - agg_mean xs)\<^sup>2) xs) / real (length xs - 1))))"

definition groupby_hour_agg :: "sample list \<Rightarrow> hour_pattern list" where
  "groupby_hour_agg df =
     map (\<lambda>h. let grp = filter (\<lambda>s. hour_of (timestamp s) = h) df in
               \<lparr>pattern_hour = h,
                download_mean = agg_mean (map download grp),
                download_std = agg_std (map download grp),
                upload_mean = agg_mean (map upload grp),
                upload_std = agg_std (map upload grp)\<rparr>)
         (group_keys df)"

fun idxmax_from :: "nat \<Rightarrow> real \<Rightarrow> (nat \<times> real) list \<Rightarrow> nat" where
  "idxmax_from best v [] = best"
| "idxmax_from best v ((label, w) # rows) =
     (if w > v then idxmax_from label w rows else idxmax_from best v rows)"

fun idxmax :: "(nat \<times> real) list \<Rightarrow> error + nat" where
  "idxmax [] = Inl ValueError"
| "idxmax ((label, v) # rows) = Inr (idxmax_from label v rows)"

fun idxmin_from :: "nat \<Rightarrow> real \<Rightarrow> (nat \<times> real) list \<Rightarrow> nat" where
  "idxmin_from best v [] = best"
| "idxmin_from best v ((label, w) # rows) =
     (if w < v then idxmin_from label w rows else idxmin_from best v rows)"

fun idxmin :: "(nat \<times> real) list \<Rightarrow> error + nat" where
  "idxmin [] = Inl ValueError"
| "idxmin ((label, v) # rows) = Inr (idxmin_from label v rows)"

definition series_mean :: "real option list \<Rightarrow> real option" where
  "series_mean col =
     (let present = List.map_filter (\<lambda>v. v) col in
      if present = [] then None else Some (sum_list present / real (length present)))"

definition analyze_patterns :: "monitor \<Rightarrow> error + patterns option" where
  "analyze_patterns st =
     (if speeds st = [] then Inr None
      else
        let hp = groupby_hour_agg (speeds st);
            download_means = map (\<lambda>r. (pattern_hour r, download_mean r)) hp;
            upload_means = map (\<lambda>r. (pattern_hour r, upload_mean r)) hp
        in
        (case idxmax download_means of Inl e \<Rightarrow> Inl e | Inr peak_d \<Rightarrow>
        (case idxmax upload_means of Inl e \<Rightarrow> Inl e | Inr peak_u \<Rightarrow>
        (case idxmin download_means of Inl e \<Rightarrow> Inl e | Inr low_d \<Rightarrow>
        (case idxmin upload_means of Inl e \<Rightarrow> Inl e | Inr low_u \<Rightarrow>
           Inr (Some
             \<lparr>peak_hours = \<lparr>for_download = peak_d, for_upload = peak_u\<rparr>,
              low_hours = \<lparr>for_download = low_d, for_upload = low_u\<rparr>,
              stability =
                \<lparr>for_download = series_mean (map download_std hp),
                 for_upload = series_mean (map upload_std hp)\<rparr>,
              hourly_patterns = hp\<rparr>))))))"

section \<open>Report\<close>

text \<open>
  \<^verbatim>\<open>generate_report\<close> builds the list \<^verbatim>\<open>report_content\<close>, one formatted string per
  entry. The model keeps the list and its order and replaces each string by a
  constructor that carries the values formatted into it. Printing the list and writing
  the file are outside the model. \<open>now\<close> is the clock reading of the header.
\<close>

datatype report_line =
    Banner string
  | Report_generated_at datetime
  | Maximum_Download speedval "datetime option"
  | Minimum_Download speedval "datetime option"
  | Maximum_Upload speedval "datetime option"
  | Minimum_Upload speedval "datetime option"
  | Total_Disconnection_Time timedelta
  | Number_of_Disconnections nat
  | Disconnected_at datetime
  | Reconnected_at datetime
  | Duration timedelta
  | No_disconnections_recorded
  | Peak_Download_Speed_Hour nat
  | Peak_Upload_Speed_Hour nat
  | Lowest_Download_Speed_Hour nat
  | Lowest_Upload_Speed_Hour nat
  | Connection_Stability_caption
  | Download_Stability_Score "real option"
  | Upload_Stability_Score "real option"
  | Hour_heading nat
  | Average_Download real
  | Average_Upload real
  | Samples_taken nat

definition generate_report :: "datetime \<Rightarrow> monitor \<Rightarrow> error + report_line list" where
  "generate_report now st =
     (case analyze_patterns st of
        Inl e \<Rightarrow> Inl e
      | Inr patterns \<Rightarrow>
          let total_downtime = calculate_total_downtime st;
              ex = speed_extremes st
          in Inr
            ([Banner ''WiFi Monitoring Report'',
              Report_generated_at now,
              Banner ''Speed Extremes'',
              Maximum_Download (speed (max_download ex)) (ex_timestamp (max_download ex)),
              Minimum_Download (speed (min_download ex)) (ex_timestamp (min_download ex)),
              Maximum_Upload (speed (max_upload ex)) (ex_timestamp (max_upload ex)),
              Minimum_Upload (speed (min_upload ex)) (ex_timestamp (min_upload ex)),
              Banner ''Connection Summary'',
              Total_Disconnection_Time total_downtime,
              Number_of_Disconnections (length (disconnections st)),
              Banner ''Detailed Disconnections'']
             @ (if disconnections st \<noteq> []
                then concat (map (\<lambda>d. [Disconnected_at (start d), Reconnected_at (end_time d),
                                        Duration (duration d)])
                                 (disconnections st))
                else [No_disconnections_recorded])
             @ (case patterns of
                  None \<Rightarrow> []
                | Some p \<Rightarrow>
                    [Banner ''Speed Patterns'',
                     Peak_Download_Speed_Hour (for_download (peak_hours p)),
                     Peak_Upload_Speed_Hour (for_upload (peak_hours p)),
                     Lowest_Download_Speed_Hour (for_download (low_hours p)),
                     Lowest_Upload_Speed_Hour (for_upload (low_hours p)),
                     Connection_Stability_caption,
                     Download_Stability_Score (for_download (stability p)),
                     Upload_Stability_Score (for_upload (stability p))])
             @ [Banner ''Hourly Speed Averages'']
             @ concat (map (\<lambda>(h, data). [Hour_heading h, Average_Download (avg_download data),
                                           Average_Upload (avg_upload data),
                                           Samples_taken (samples data)])
                           (sort_key fst (hourly_averages st)))))"

section \<open>The monitoring loop\<close>

text \<open>
  One entry per iteration of the \<^verbatim>\<open>while\<close> loop of \<^verbatim>\<open>run\<close>, holding what the
  iteration reads from outside:
  \<^item> \<open>Offline current_time disconnect_time answers reconnect_time\<close>:
    \<^verbatim>\<open>check_connection\<close> answered false; then the clock reading passed to
    \<^verbatim>\<open>track_disconnection\<close>, the answers it polls and the clock reading it takes;
  \<^item> \<open>Online current_time outcome\<close>: \<^verbatim>\<open>check_connection\<close> answered true; then the
    outcome of \<^verbatim>\<open>measure_speed\<close>.
  The loop condition holds once per entry and fails when the list is used up.
\<close>

datatype cycle =
    Offline datetime datetime "bool list" datetime
  | Online datetime "(real \<times> real \<times> datetime) option"

fun cycle_time :: "cycle \<Rightarrow> datetime" where
  "cycle_time (Offline current_time _ _ _) = current_time"
| "cycle_time (Online current_time _) = current_time"

text \<open>The first statement of the loop body: the check whether the hour has changed.\<close>

definition hour_change :: "datetime \<Rightarrow> monitor \<Rightarrow> error + monitor" where
  "hour_change current_time st =
     (if hour_of current_time \<noteq> current_hour st
      then (case calculate_hourly_average st of
              Inl e \<Rightarrow> Inl e
            | Inr st' \<Rightarrow> Inr (st'\<lparr>current_hour := hour_of current_time\<rparr>))
      else Inr st)"

text \<open>The part of the loop body after a successful connection check.\<close>

definition measure_and_log ::
  "datetime \<Rightarrow> (real \<times> real \<times> datetime) option \<Rightarrow> monitor \<Rightarrow> monitor" where
  "measure_and_log current_time outcome st =
     (case measure_speed outcome st of
        ((download_speed, upload_speed), st') \<Rightarrow>
          if truthy download_speed \<and> truthy upload_speed
          then st'\<lparr>speeds := speeds st' @
                 [\<lparr>timestamp = current_time, hour = hour_of current_time,
                   download = the download_speed, upload = the upload_speed\<rparr>]\<rparr>
          else st')"

text \<open>
  The loop. \<open>None\<close>: an iteration is still inside \<^verbatim>\<open>track_disconnection\<close>;
  \<open>Some (Inl e)\<close>: an exception left the loop.
\<close>

fun run_loop :: "cycle list \<Rightarrow> monitor \<Rightarrow> (error + monitor) option" where
  "run_loop [] st = Some (Inr st)"
| "run_loop (c # cs) st =
     (case hour_change (cycle_time c) st of
        Inl e \<Rightarrow> Some (Inl e)
      | Inr st1 \<Rightarrow>
          (case c of
             Offline current_time disconnect_time answers reconnect_time \<Rightarrow>
               (case track_disconnection disconnect_time answers reconnect_time st1 of
                  None \<Rightarrow> None
                | Some st2 \<Rightarrow> run_loop cs st2)
           | Online current_time outcome \<Rightarrow>
               run_loop cs (measure_and_log current_time outcome st1)))"

text \<open>
  \<^verbatim>\<open>run\<close>: the loop, the average of the last hour, the report. The result is the final
  state with the report.
\<close>

definition run :: "cycle list \<Rightarrow> datetime \<Rightarrow> monitor \<Rightarrow> (error + monitor \<times> report_line list) option" where
  "run cycles report_time st =
     (case run_loop cycles st of
        None \<Rightarrow> None
      | Some (Inl e) \<Rightarrow> Some (Inl e)
      | Some (Inr st1) \<Rightarrow>
          (case calculate_hourly_average st1 of
             Inl e \<Rightarrow> Some (Inl e)
           | Inr st2 \<Rightarrow>
               (case generate_report report_time st2 of
                  Inl e \<Rightarrow> Some (Inl e)
                | Inr report \<Rightarrow> Some (Inr (st2, report)))))"

section \<open>States of a monitor\<close>

text \<open>
  \<open>evolves st st'\<close>: the state \<open>st'\<close> comes from \<open>st\<close> by a finite number of the
  state-changing operations of the class, each with any arguments and any readings of
  the outside world. These are all the places where the source assigns to a field of
  \<^verbatim>\<open>self\<close> after \<^verbatim>\<open>__init__\<close>.
\<close>

inductive evolves :: "monitor \<Rightarrow> monitor \<Rightarrow> bool" where
  same: "evolves st st"
| by_update: "evolves st st1 \<Longrightarrow> evolves st (update_speed_extremes d u t st1)"
| by_measure: "evolves st st1 \<Longrightarrow> evolves st (snd (measure_speed outcome st1))"
| by_track:
    "evolves st st1 \<Longrightarrow> track_disconnection start_time answers now st1 = Some st2 \<Longrightarrow>
     evolves st st2"
| by_average: "evolves st st1 \<Longrightarrow> calculate_hourly_average st1 = Inr st2 \<Longrightarrow> evolves st st2"
| by_hour_change: "evolves st st1 \<Longrightarrow> hour_change t st1 = Inr st2 \<Longrightarrow> evolves st st2"
| by_log: "evolves st st1 \<Longrightarrow> evolves st (measure_and_log t outcome st1)"

section \<open>Properties of the speed extremes\<close>

lemma update_max_download:
  "max_download (speed_extremes (update_speed_extremes d u t st)) =
     (if exceeds d (speed (max_download (speed_extremes st)))
      then \<lparr>speed = Fin d, ex_timestamp = Some t\<rparr> else max_download (speed_extremes st))"
  by (simp add: update_speed_extremes_def Let_def)

lemma update_min_download:
  "min_download (speed_extremes (update_speed_extremes d u t st)) =
     (if undercuts d (speed (min_download (speed_extremes st)))
      then \<lparr>speed = Fin d, ex_timestamp = Some t\<rparr> else min_download (speed_extremes st))"
  by (simp add: update_speed_extremes_def Let_def)

lemma update_max_upload:
  "max_upload (speed_extremes (update_speed_extremes d u t st)) =
     (if exceeds u (speed (max_upload (speed_extremes st)))
      then \<lparr>speed = Fin u, ex_timestamp = Some t\<rparr> else max_upload (speed_extremes st))"
  by (simp add: update_speed_extremes_def Let_def)

lemma update_min_upload:
  "min_upload (speed_extremes (update_speed_extremes d u t st)) =
     (if undercuts u (speed (min_upload (speed_extremes st)))
      then \<lparr>speed = Fin u, ex_timestamp = Some t\<rparr> else min_upload (speed_extremes st))"
  by (simp add: update_speed_extremes_def Let_def)

lemmas update_slots = update_max_download update_min_download update_max_upload update_min_upload

lemma update_frame:
  "update_speed_extremes d u t st =
     st\<lparr>speed_extremes := speed_extremes (update_speed_extremes d u t st)\<rparr>"
  by (simp add: update_speed_extremes_def Let_def)

lemma update_other_fields [simp]:
  "speeds (update_speed_extremes d u t st) = speeds st"
  "disconnections (update_speed_extremes d u t st) = disconnections st"
  "hourly_averages (update_speed_extremes d u t st) = hourly_averages st"
  "current_hour (update_speed_extremes d u t st) = current_hour st"
  "extremes.more (speed_extremes (update_speed_extremes d u t st)) = extremes.more (speed_extremes st)"
  by (simp_all add: update_speed_extremes_def Let_def)

lemma exceeds_settled: "\<not> exceeds d (if exceeds d s then Fin d else s)"
  by (cases s) auto

lemma undercuts_settled: "\<not> undercuts d (if undercuts d s then Fin d else s)"
  by (cases s) auto

lemma speed_if: "speed (if b then x else y) = (if b then speed x else speed y)"
  by simp

lemma update_twice_extremes:
  "speed_extremes (update_speed_extremes d u t2 (update_speed_extremes d u t1 st)) =
   speed_extremes (update_speed_extremes d u t1 st)"
proof (rule extremes.equality)
  let ?a = "update_speed_extremes d u t1 st"
  have "\<not> exceeds d (speed (max_download (speed_extremes ?a)))"
    using exceeds_settled [of d "speed (max_download (speed_extremes st))"]
    by (simp add: update_max_download speed_if)
  then show "max_download (speed_extremes (update_speed_extremes d u t2 ?a)) =
      max_download (speed_extremes ?a)"
    by (simp add: update_max_download [of d u t2 ?a])
  have "\<not> undercuts d (speed (min_download (speed_extremes ?a)))"
    using undercuts_settled [of d "speed (min_download (speed_extremes st))"]
    by (simp add: update_min_download speed_if)
  then show "min_download (speed_extremes (update_speed_extremes d u t2 ?a)) =
      min_download (speed_extremes ?a)"
    by (simp add: update_min_download [of d u t2 ?a])
  have "\<not> exceeds u (speed (max_upload (speed_extremes ?a)))"
    using exceeds_settled [of u "speed (max_upload (speed_extremes st))"]
    by (simp add: update_max_upload speed_if)
  then show "max_upload (speed_extremes (update_speed_extremes d u t2 ?a)) =
      max_upload (speed_extremes ?a)"
    by (simp add: update_max_upload [of d u t2 ?a])
  have "\<not> undercuts u (speed (min_upload (speed_extremes ?a)))"
    using undercuts_settled [of u "speed (min_upload (speed_extremes st))"]
    by (simp add: update_min_upload speed_if)
  then show "min_upload (speed_extremes (update_speed_extremes d u t2 ?a)) =
      min_upload (speed_extremes ?a)"
    by (simp add: update_min_upload [of d u t2 ?a])
  show "extremes.more (speed_extremes (update_speed_extremes d u t2 ?a)) =
      extremes.more (speed_extremes ?a)"
    by simp
qed

lemma update_twice:
  "update_speed_extremes d u t2 (update_speed_extremes d u t1 st) = update_speed_extremes d u t1 st"
  by (subst update_frame) (simp add: update_twice_extremes)

text \<open>
  C7. An update with a speed equal to the recorded extreme leaves that extreme as it is,
  speed and timestamp, for each of the four extremes; and feeding the same measurement
  again at a later time changes nothing, so the first occurrence keeps its timestamp.
\<close>

theorem ties_do_not_replace:
  "(speed (max_download (speed_extremes st)) = Fin d \<longrightarrow>
      max_download (speed_extremes (update_speed_extremes d u t st)) = max_download (speed_extremes st)) \<and>
   (speed (min_download (speed_extremes st)) = Fin d \<longrightarrow>
      min_download (speed_extremes (update_speed_extremes d u t st)) = min_download (speed_extremes st)) \<and>
   (speed (max_upload (speed_extremes st)) = Fin u \<longrightarrow>
      max_upload (speed_extremes (update_speed_extremes d u t st)) = max_upload (speed_extremes st)) \<and>
   (speed (min_upload (speed_extremes st)) = Fin u \<longrightarrow>
      min_upload (speed_extremes (update_speed_extremes d u t st)) = min_upload (speed_extremes st)) \<and>
   update_speed_extremes d u t (update_speed_extremes d u t1 st) = update_speed_extremes d u t1 st"
  by (simp add: update_slots update_twice)

theorem ties_do_not_replace_witness:
  "speed (max_download (speed_extremes (update_speed_extremes 50 10 1 (init 0)))) = Fin 50 \<and>
   speed (min_download (speed_extremes (update_speed_extremes 50 10 1 (init 0)))) = Fin 50 \<and>
   speed (max_upload (speed_extremes (update_speed_extremes 50 10 1 (init 0)))) = Fin 10 \<and>
   speed (min_upload (speed_extremes (update_speed_extremes 50 10 1 (init 0)))) = Fin 10 \<and>
   max_download (speed_extremes (update_speed_extremes 50 10 2 (update_speed_extremes 50 10 1 (init 0)))) =
     \<lparr>speed = Fin 50, ex_timestamp = Some 1\<rparr> \<and>
   min_download (speed_extremes (update_speed_extremes 50 10 2 (update_speed_extremes 50 10 1 (init 0)))) =
     \<lparr>speed = Fin 50, ex_timestamp = Some 1\<rparr> \<and>
   max_upload (speed_extremes (update_speed_extremes 50 10 2 (update_speed_extremes 50 10 1 (init 0)))) =
     \<lparr>speed = Fin 10, ex_timestamp = Some 1\<rparr> \<and>
   min_upload (speed_extremes (update_speed_extremes 50 10 2 (update_speed_extremes 50 10 1 (init 0)))) =
     \<lparr>speed = Fin 10, ex_timestamp = Some 1\<rparr>"
proof -
  let ?st = "update_speed_extremes 50 10 1 (init 0)"
  have h: "speed (max_download (speed_extremes ?st)) = Fin 50"
    "speed (min_download (speed_extremes ?st)) = Fin 50"
    "speed (max_upload (speed_extremes ?st)) = Fin 10"
    "speed (min_upload (speed_extremes ?st)) = Fin 10"
    by (simp_all add: update_speed_extremes_def init_def Let_def)
  have v: "max_download (speed_extremes ?st) = \<lparr>speed = Fin 50, ex_timestamp = Some 1\<rparr>"
    "min_download (speed_extremes ?st) = \<lparr>speed = Fin 50, ex_timestamp = Some 1\<rparr>"
    "max_upload (speed_extremes ?st) = \<lparr>speed = Fin 10, ex_timestamp = Some 1\<rparr>"
    "min_upload (speed_extremes ?st) = \<lparr>speed = Fin 10, ex_timestamp = Some 1\<rparr>"
    by (simp_all add: update_speed_extremes_def init_def Let_def)
  from ties_do_not_replace [of ?st 50 10 2 1] h v show ?thesis
    by simp
qed

lemma feed_snoc:
  "feed (ms @ [m]) st = update_speed_extremes (fst m) (fst (snd m)) (snd (snd m)) (feed ms st)"
proof (induction ms arbitrary: st)
  case Nil
  show ?case by (cases m) simp
next
  case (Cons a ms)
  then show ?case by (cases a) simp
qed

lemma max_slot_step:
  assumes "s = Fin M" "\<forall>x\<in>set xs. x \<le> M" "M = 0 \<or> M \<in> set xs"
  shows "\<exists>M'. (if exceeds x s then Fin x else s) = Fin M' \<and> (\<forall>y\<in>set (xs @ [x]). y \<le> M') \<and>
           (M' = 0 \<or> M' \<in> set (xs @ [x]))"
  using assms by auto

lemma min_slot_step:
  assumes "if xs = [] then s = PosInf else \<exists>m. s = Fin m \<and> (\<forall>y\<in>set xs. m \<le> y) \<and> m \<in> set xs"
  shows "\<exists>m. (if undercuts x s then Fin x else s) = Fin m \<and> (\<forall>y\<in>set (xs @ [x]). m \<le> y) \<and>
           m \<in> set (xs @ [x])"
  using assms by (auto split: if_splits)

lemma feed_max_download:
  "\<exists>M. speed (max_download (speed_extremes (feed ms (init t0)))) = Fin M \<and>
      (\<forall>x\<in>set (map fst ms). x \<le> M) \<and> (M = 0 \<or> M \<in> set (map fst ms))"
proof (induction ms rule: rev_induct)
  case Nil
  show ?case by (simp add: init_def)
next
  case (snoc m ms)
  then obtain M where ih: "speed (max_download (speed_extremes (feed ms (init t0)))) = Fin M"
    "\<forall>x\<in>set (map fst ms). x \<le> M" "M = 0 \<or> M \<in> set (map fst ms)" by blast
  have eq: "speed (max_download (speed_extremes (feed (ms @ [m]) (init t0)))) =
      (if exceeds (fst m) (speed (max_download (speed_extremes (feed ms (init t0))))) then Fin (fst m)
       else speed (max_download (speed_extremes (feed ms (init t0)))))"
    by (simp add: feed_snoc update_max_download speed_if del: exceeds.simps)
  have mp: "map fst (ms @ [m]) = map fst ms @ [fst m]" by simp
  from max_slot_step [OF ih, of "fst m"] show ?case
    unfolding eq mp .
qed

lemma feed_max_upload:
  "\<exists>M. speed (max_upload (speed_extremes (feed ms (init t0)))) = Fin M \<and>
      (\<forall>x\<in>set (map (fst \<circ> snd) ms). x \<le> M) \<and> (M = 0 \<or> M \<in> set (map (fst \<circ> snd) ms))"
proof (induction ms rule: rev_induct)
  case Nil
  show ?case by (simp add: init_def)
next
  case (snoc m ms)
  then obtain M where ih: "speed (max_upload (speed_extremes (feed ms (init t0)))) = Fin M"
    "\<forall>x\<in>set (map (fst \<circ> snd) ms). x \<le> M" "M = 0 \<or> M \<in> set (map (fst \<circ> snd) ms)" by blast
  have eq: "speed (max_upload (speed_extremes (feed (ms @ [m]) (init t0)))) =
      (if exceeds (fst (snd m)) (speed (max_upload (speed_extremes (feed ms (init t0))))) then Fin (fst (snd m))
       else speed (max_upload (speed_extremes (feed ms (init t0)))))"
    by (simp add: feed_snoc update_max_upload speed_if del: exceeds.simps)
  have mp: "map (fst \<circ> snd) (ms @ [m]) = map (fst \<circ> snd) ms @ [fst (snd m)]" by simp
  from max_slot_step [OF ih, of "fst (snd m)"] show ?case
    unfolding eq mp .
qed

lemma feed_min_download:
  "if ms = [] then speed (min_download (speed_extremes (feed ms (init t0)))) = PosInf
   else \<exists>m. speed (min_download (speed_extremes (feed ms (init t0)))) = Fin m \<and>
      (\<forall>x\<in>set (map fst ms). m \<le> x) \<and> m \<in> set (map fst ms)"
proof (induction ms rule: rev_induct)
  case Nil
  show ?case by (simp add: init_def)
next
  case (snoc m ms)
  have ih: "if map fst ms = [] then speed (min_download (speed_extremes (feed ms (init t0)))) = PosInf
    else \<exists>k. speed (min_download (speed_extremes (feed ms (init t0)))) = Fin k \<and>
      (\<forall>y\<in>set (map fst ms). k \<le> y) \<and> k \<in> set (map fst ms)"
    using snoc by simp
  have eq: "speed (min_download (speed_extremes (feed (ms @ [m]) (init t0)))) =
      (if undercuts (fst m) (speed (min_download (speed_extremes (feed ms (init t0))))) then Fin (fst m)
       else speed (min_download (speed_extremes (feed ms (init t0)))))"
    by (simp add: feed_snoc update_min_download speed_if del: undercuts.simps)
  have mp: "map fst (ms @ [m]) = map fst ms @ [fst m]" by simp
  have ne: "(ms @ [m] = []) = False" by simp
  from min_slot_step [OF ih, of "fst m"] show ?case
    unfolding eq mp ne if_False .
qed

lemma feed_min_upload:
  "if ms = [] then speed (min_upload (speed_extremes (feed ms (init t0)))) = PosInf
   else \<exists>m. speed (min_upload (speed_extremes (feed ms (init t0)))) = Fin m \<and>
      (\<forall>x\<in>set (map (fst \<circ> snd) ms). m \<le> x) \<and> m \<in> set (map (fst \<circ> snd) ms)"
proof (induction ms rule: rev_induct)
  case Nil
  show ?case by (simp add: init_def)
next
  case (snoc m ms)
  have ih: "if map (fst \<circ> snd) ms = [] then speed (min_upload (speed_extremes (feed ms (init t0)))) = PosInf
    else \<exists>k. speed (min_upload (speed_extremes (feed ms (init t0)))) = Fin k \<and>
      (\<forall>y\<in>set (map (fst \<circ> snd) ms). k \<le> y) \<and> k \<in> set (map (fst \<circ> snd) ms)"
    using snoc by simp
  have eq: "speed (min_upload (speed_extremes (feed (ms @ [m]) (init t0)))) =
      (if undercuts (fst (snd m)) (speed (min_upload (speed_extremes (feed ms (init t0))))) then Fin (fst (snd m))
       else speed (min_upload (speed_extremes (feed ms (init t0)))))"
    by (simp add: feed_snoc update_min_upload speed_if del: undercuts.simps)
  have mp: "map (fst \<circ> snd) (ms @ [m]) = map (fst \<circ> snd) ms @ [fst (snd m)]" by simp
  have ne: "(ms @ [m] = []) = False" by simp
  from min_slot_step [OF ih, of "fst (snd m)"] show ?case
    unfolding eq mp ne if_False .
qed

lemma max_observed:
  assumes "M = 0 \<or> M \<in> set xs" "\<forall>x\<in>set xs. x \<le> M" "xs \<noteq> []" "\<forall>x\<in>set xs. (0::real) \<le> x"
  shows "M \<in> set xs"
proof (cases "M = 0")
  case True
  from assms(3) obtain x where x: "x \<in> set xs" by (cases xs) auto
  with assms(2,4) True have "x = 0" by fastforce
  with x True show ?thesis by simp
next
  case False
  with assms(1) show ?thesis by simp
qed

text \<open>
  C2. After any sequence of measurements fed to \<^verbatim>\<open>update_speed_extremes\<close> from the
  initial state, the recorded maximum download speed is at least every observed download
  speed and the recorded minimum at most every one; with at least one measurement the
  minimum is one of the observed values, and so is the maximum when the observed speeds
  are not negative (speeds are throughputs; the maximum starts at 0, which a sequence of
  negative numbers would never replace). The same holds for the upload speeds.
\<close>

theorem extremes_bound_the_observed:
  "(\<exists>M. speed (max_download (speed_extremes (feed ms (init t0)))) = Fin M \<and>
        (\<forall>x\<in>set ms. fst x \<le> M) \<and>
        (ms \<noteq> [] \<and> (\<forall>x\<in>set ms. 0 \<le> fst x) \<longrightarrow> M \<in> fst ` set ms)) \<and>
   (if ms = [] then speed (min_download (speed_extremes (feed ms (init t0)))) = PosInf
    else \<exists>m. speed (min_download (speed_extremes (feed ms (init t0)))) = Fin m \<and>
        (\<forall>x\<in>set ms. m \<le> fst x) \<and> m \<in> fst ` set ms) \<and>
   (\<exists>M. speed (max_upload (speed_extremes (feed ms (init t0)))) = Fin M \<and>
        (\<forall>x\<in>set ms. fst (snd x) \<le> M) \<and>
        (ms \<noteq> [] \<and> (\<forall>x\<in>set ms. 0 \<le> fst (snd x)) \<longrightarrow> M \<in> (fst \<circ> snd) ` set ms)) \<and>
   (if ms = [] then speed (min_upload (speed_extremes (feed ms (init t0)))) = PosInf
    else \<exists>m. speed (min_upload (speed_extremes (feed ms (init t0)))) = Fin m \<and>
        (\<forall>x\<in>set ms. m \<le> fst (snd x)) \<and> m \<in> (fst \<circ> snd) ` set ms)"
proof (intro conjI)
  obtain M where M: "speed (max_download (speed_extremes (feed ms (init t0)))) = Fin M"
    "\<forall>x\<in>set (map fst ms). x \<le> M" "M = 0 \<or> M \<in> set (map fst ms)"
    using feed_max_download [of ms t0] by blast
  have "ms \<noteq> [] \<and> (\<forall>x\<in>set ms. 0 \<le> fst x) \<longrightarrow> M \<in> fst ` set ms"
    using max_observed [OF M(3) M(2)] by simp
  with M show "\<exists>M. speed (max_download (speed_extremes (feed ms (init t0)))) = Fin M \<and>
        (\<forall>x\<in>set ms. fst x \<le> M) \<and>
        (ms \<noteq> [] \<and> (\<forall>x\<in>set ms. 0 \<le> fst x) \<longrightarrow> M \<in> fst ` set ms)"
    by auto
next
  obtain M where M: "speed (max_upload (speed_extremes (feed ms (init t0)))) = Fin M"
    "\<forall>x\<in>set (map (fst \<circ> snd) ms). x \<le> M" "M = 0 \<or> M \<in> set (map (fst \<circ> snd) ms)"
    using feed_max_upload [of ms t0] by blast
  have "ms \<noteq> [] \<and> (\<forall>x\<in>set ms. 0 \<le> fst (snd x)) \<longrightarrow> M \<in> (fst \<circ> snd) ` set ms"
    using max_observed [OF M(3) M(2)] by simp
  with M show "\<exists>M. speed (max_upload (speed_extremes (feed ms (init t0)))) = Fin M \<and>
        (\<forall>x\<in>set ms. fst (snd x) \<le> M) \<and>
        (ms \<noteq> [] \<and> (\<forall>x\<in>set ms. 0 \<le> fst (snd x)) \<longrightarrow> M \<in> (fst \<circ> snd) ` set ms)"
    by auto
next
  show "if ms = [] then speed (min_download (speed_extremes (feed ms (init t0)))) = PosInf
    else \<exists>m. speed (min_download (speed_extremes (feed ms (init t0)))) = Fin m \<and>
        (\<forall>x\<in>set ms. m \<le> fst x) \<and> m \<in> fst ` set ms"
    using feed_min_download [of ms t0] by (simp split: if_splits)
next
  show "if ms = [] then speed (min_upload (speed_extremes (feed ms (init t0)))) = PosInf
    else \<exists>m. speed (min_upload (speed_extremes (feed ms (init t0)))) = Fin m \<and>
        (\<forall>x\<in>set ms. m \<le> fst (snd x)) \<and> m \<in> (fst \<circ> snd) ` set ms"
    using feed_min_upload [of ms t0] by (simp split: if_splits)
qed

theorem extremes_bound_the_observed_witness:
  "(\<exists>M. speed (max_download (speed_extremes (feed [(50, 10, 1), (80, 15, 2), (20, 5, 3)] (init 0)))) = Fin M \<and>
      50 \<le> M \<and> 80 \<le> M \<and> 20 \<le> M \<and> M \<in> {50, 80, 20}) \<and>
   (\<exists>m. speed (min_download (speed_extremes (feed [(50, 10, 1), (80, 15, 2), (20, 5, 3)] (init 0)))) = Fin m \<and>
      m \<le> 50 \<and> m \<le> 80 \<and> m \<le> 20 \<and> m \<in> {50, 80, 20}) \<and>
   (\<exists>M. speed (max_upload (speed_extremes (feed [(50, 10, 1), (80, 15, 2), (20, 5, 3)] (init 0)))) = Fin M \<and>
      10 \<le> M \<and> 15 \<le> M \<and> 5 \<le> M \<and> M \<in> {10, 15, 5}) \<and>
   (\<exists>m. speed (min_upload (speed_extremes (feed [(50, 10, 1), (80, 15, 2), (20, 5, 3)] (init 0)))) = Fin m \<and>
      m \<le> 10 \<and> m \<le> 15 \<and> m \<le> 5 \<and> m \<in> {10, 15, 5})"
  using extremes_bound_the_observed [of "[(50, 10, 1), (80, 15, 2), (20, 5, 3)]" 0]
  by (simp del: feed.simps)

section \<open>Properties of the disconnection log\<close>

lemma track_disconnection_result:
  "track_disconnection start_time answers now st = Some st' \<Longrightarrow>
   st' = st\<lparr>disconnections := disconnections st @
           [\<lparr>start = start_time, end_time = now, duration = now - start_time\<rparr>]\<rparr>"
  by (induction answers) (auto split: if_splits)


lemma measure_speed_state:
  "snd (measure_speed outcome st) =
     (case outcome of None \<Rightarrow> st | Some (d, u, t) \<Rightarrow> update_speed_extremes d u t st)"
  by (cases outcome) auto

lemma measure_speed_disconnections [simp]:
  "disconnections (snd (measure_speed outcome st)) = disconnections st"
  by (cases outcome) auto

lemma calculate_hourly_average_disconnections:
  "calculate_hourly_average st = Inr st' \<Longrightarrow> disconnections st' = disconnections st"
  by (auto simp: calculate_hourly_average_def mean_def Let_def split: if_splits)

lemma hour_change_disconnections:
  "hour_change t st = Inr st' \<Longrightarrow> disconnections st' = disconnections st"
  by (auto simp: hour_change_def split: if_splits sum.splits
      dest: calculate_hourly_average_disconnections)

lemma measure_and_log_disconnections [simp]:
  "disconnections (measure_and_log t outcome st) = disconnections st"
  by (cases outcome) (auto simp: measure_and_log_def)


lemma evolves_durations:
  "evolves st st' \<Longrightarrow> \<forall>d\<in>set (disconnections st). duration d = end_time d - start d \<Longrightarrow>
   \<forall>d\<in>set (disconnections st'). duration d = end_time d - start d"
proof (induction rule: evolves.induct)
  case (by_track st st1 start_time answers now st2)
  have "disconnections st2 = disconnections st1 @
      [\<lparr>start = start_time, end_time = now, duration = now - start_time\<rparr>]"
    using track_disconnection_result [OF by_track.hyps(2)] by simp
  with by_track show ?case by auto
qed (auto dest: calculate_hourly_average_disconnections hour_change_disconnections)

lemma sum_durations:
  "\<forall>d\<in>set ds. duration d = end_time d - start d \<Longrightarrow>
   sum_list (map duration ds) = sum_list (map (\<lambda>d. end_time d - start d) ds)"
  by (induction ds) auto

lemma fold_durations: "fold (\<lambda>d total. total + duration d) ds acc = acc + sum_list (map duration ds)"
  by (induction ds arbitrary: acc) auto

lemma calculate_total_downtime_sum:
  "calculate_total_downtime st = sum_list (map duration (disconnections st))"
  by (simp add: calculate_total_downtime_def fold_durations)

text \<open>
  C3. \<^verbatim>\<open>calculate_total_downtime\<close> returns the sum of the recorded durations; in every
  state that the operations of the class reach from the initial state, each recorded
  duration is end minus start, so the result is the sum of (end - start) over the
  recorded events; with no event it is zero.
\<close>

theorem total_downtime_is_sum:
  "calculate_total_downtime st = sum_list (map duration (disconnections st)) \<and>
   (evolves (init t0) st \<longrightarrow>
      calculate_total_downtime st = sum_list (map (\<lambda>d. end_time d - start d) (disconnections st))) \<and>
   (disconnections st = [] \<longrightarrow> calculate_total_downtime st = 0)"
proof (intro conjI impI)
  show "calculate_total_downtime st = sum_list (map duration (disconnections st))"
    by (rule calculate_total_downtime_sum)
next
  assume "evolves (init t0) st"
  then have "\<forall>d\<in>set (disconnections st). duration d = end_time d - start d"
    by (rule evolves_durations) (simp add: init_def)
  then have "sum_list (map duration (disconnections st)) =
      sum_list (map (\<lambda>d. end_time d - start d) (disconnections st))"
    by (rule sum_durations)
  then show "calculate_total_downtime st =
      sum_list (map (\<lambda>d. end_time d - start d) (disconnections st))"
    by (simp add: calculate_total_downtime_sum)
next
  assume "disconnections st = []"
  then show "calculate_total_downtime st = 0"
    by (simp add: calculate_total_downtime_sum)
qed

theorem total_downtime_is_sum_witness:
  "evolves (init 0) ((init 0)\<lparr>disconnections :=
       [\<lparr>start = 100, end_time = 142, duration = 42\<rparr>, \<lparr>start = 200, end_time = 207, duration = 7\<rparr>]\<rparr>) \<and>
   calculate_total_downtime ((init 0)\<lparr>disconnections :=
       [\<lparr>start = 100, end_time = 142, duration = 42\<rparr>, \<lparr>start = 200, end_time = 207, duration = 7\<rparr>]\<rparr>) = 49 \<and>
   disconnections (init 0) = [] \<and> calculate_total_downtime (init 0) = 0"
proof -
  let ?st1 = "(init 0)\<lparr>disconnections := [\<lparr>start = 100, end_time = 142, duration = 42\<rparr>]\<rparr>"
  let ?st2 = "(init 0)\<lparr>disconnections :=
       [\<lparr>start = 100, end_time = 142, duration = 42\<rparr>, \<lparr>start = 200, end_time = 207, duration = 7\<rparr>]\<rparr>"
  have 1: "track_disconnection 100 [False, True] 142 (init 0) = Some ?st1"
    by (simp add: init_def)
  have 2: "track_disconnection 200 [True] 207 ?st1 = Some ?st2"
    by (simp add: init_def)
  have e: "evolves (init 0) ?st2"
    by (rule by_track [OF by_track [OF same 1] 2])
  have z: "disconnections (init 0) = []"
    by (simp add: init_def)
  from total_downtime_is_sum [of ?st2 0] e have "calculate_total_downtime ?st2 = 49"
    by simp
  moreover from total_downtime_is_sum [of "init 0" 0] z have "calculate_total_downtime (init 0) = 0"
    by simp
  ultimately show ?thesis using e z by simp
qed




section \<open>Properties of the hourly averages\<close>

lemma calculate_hourly_average_eq:
  "calculate_hourly_average st =
     Inr (if filter (\<lambda>s. hour s = current_hour st) (speeds st) = [] then st
          else st\<lparr>hourly_averages :=
                 AList.update (current_hour st)
                   \<lparr>avg_download =
                      sum_list (map download (filter (\<lambda>s. hour s = current_hour st) (speeds st))) /
                      real (length (filter (\<lambda>s. hour s = current_hour st) (speeds st))),
                    avg_upload =
                      sum_list (map upload (filter (\<lambda>s. hour s = current_hour st) (speeds st))) /
                      real (length (filter (\<lambda>s. hour s = current_hour st) (speeds st))),
                    samples = length (filter (\<lambda>s. hour s = current_hour st) (speeds st))\<rparr>
                   (hourly_averages st)\<rparr>)"
proof (cases "filter (\<lambda>s. hour s = current_hour st) (speeds st) = []")
  case True
  then show ?thesis
    by (simp add: calculate_hourly_average_def Let_def)
next
  case False
  then have "speeds st \<noteq> []" by auto
  with False show ?thesis
    by (simp add: calculate_hourly_average_def Let_def mean_def)
qed

lemma calculate_hourly_average_keeps:
  assumes "calculate_hourly_average st = Inr st'"
  shows "speeds st' = speeds st" "current_hour st' = current_hour st"
    "speed_extremes st' = speed_extremes st"
  using assms by (auto simp: calculate_hourly_average_eq split: if_splits)

lemma calculate_hourly_average_counts:
  assumes "calculate_hourly_average st = Inr st'"
    and "\<forall>h a. map_of (hourly_averages st) h = Some a \<longrightarrow> 1 \<le> samples a"
  shows "\<forall>h a. map_of (hourly_averages st') h = Some a \<longrightarrow> 1 \<le> samples a"
proof (cases "filter (\<lambda>s. hour s = current_hour st) (speeds st) = []")
  case True
  with assms show ?thesis by (simp add: calculate_hourly_average_eq)
next
  case False
  then have "1 \<le> length (filter (\<lambda>s. hour s = current_hour st) (speeds st))"
    by (cases "filter (\<lambda>s. hour s = current_hour st) (speeds st)") auto
  with assms False show ?thesis
    by (auto simp: calculate_hourly_average_eq update_conv' split: if_splits)
qed

lemma hour_change_counts:
  assumes "hour_change t st = Inr st'"
    and "\<forall>h a. map_of (hourly_averages st) h = Some a \<longrightarrow> 1 \<le> samples a"
  shows "\<forall>h a. map_of (hourly_averages st') h = Some a \<longrightarrow> 1 \<le> samples a"
proof (cases "hour_of t \<noteq> current_hour st")
  case True
  with assms(1) obtain st1 where 1: "calculate_hourly_average st = Inr st1"
    and 2: "st' = st1\<lparr>current_hour := hour_of t\<rparr>"
    by (auto simp: hour_change_def split: sum.splits)
  from calculate_hourly_average_counts [OF 1 assms(2)] 2 show ?thesis by simp
next
  case False
  with assms show ?thesis by (simp add: hour_change_def)
qed

lemma measure_speed_hourly [simp]:
  "hourly_averages (snd (measure_speed outcome st)) = hourly_averages st"
  by (cases outcome) auto

lemma measure_and_log_hourly [simp]:
  "hourly_averages (measure_and_log t outcome st) = hourly_averages st"
  by (cases outcome) (auto simp: measure_and_log_def)

lemma track_disconnection_hourly:
  "track_disconnection start_time answers now st = Some st' \<Longrightarrow>
   hourly_averages st' = hourly_averages st"
  by (drule track_disconnection_result) simp

lemma evolves_counts:
  "evolves st st' \<Longrightarrow> \<forall>h a. map_of (hourly_averages st) h = Some a \<longrightarrow> 1 \<le> samples a \<Longrightarrow>
   \<forall>h a. map_of (hourly_averages st') h = Some a \<longrightarrow> 1 \<le> samples a"
proof (induction rule: evolves.induct)
  case (by_track st st1 start_time answers now st2)
  then show ?case by (simp add: track_disconnection_hourly)
next
  case (by_average st st1 st2)
  then show ?case using calculate_hourly_average_counts by blast
next
  case (by_hour_change st st1 t st2)
  then show ?case using hour_change_counts by blast
qed simp_all

text \<open>
  C4. When the log holds no sample of the current hour, \<^verbatim>\<open>calculate_hourly_average\<close>
  returns the state as it was: no entry is written. Every entry of the hourly averages
  of a state reached from the initial one has a sample count of at least 1, and every
  operation keeps this true of the states it is true of.
\<close>

theorem empty_hour_writes_nothing:
  "(filter (\<lambda>s. hour s = current_hour st) (speeds st) = [] \<longrightarrow>
      calculate_hourly_average st = Inr st) \<and>
   (evolves (init t0) st1 \<longrightarrow>
      (\<forall>h a. map_of (hourly_averages st1) h = Some a \<longrightarrow> 1 \<le> samples a)) \<and>
   (evolves st2 st3 \<and> (\<forall>h a. map_of (hourly_averages st2) h = Some a \<longrightarrow> 1 \<le> samples a) \<longrightarrow>
      (\<forall>h a. map_of (hourly_averages st3) h = Some a \<longrightarrow> 1 \<le> samples a))"
proof (intro conjI impI)
  assume "filter (\<lambda>s. hour s = current_hour st) (speeds st) = []"
  then show "calculate_hourly_average st = Inr st"
    by (simp add: calculate_hourly_average_eq)
next
  assume "evolves (init t0) st1"
  then show "\<forall>h a. map_of (hourly_averages st1) h = Some a \<longrightarrow> 1 \<le> samples a"
    by (rule evolves_counts) (simp add: init_def)
next
  assume "evolves st2 st3 \<and> (\<forall>h a. map_of (hourly_averages st2) h = Some a \<longrightarrow> 1 \<le> samples a)"
  then show "\<forall>h a. map_of (hourly_averages st3) h = Some a \<longrightarrow> 1 \<le> samples a"
    using evolves_counts by blast
qed

theorem empty_hour_writes_nothing_witness:
  "let st = \<lparr>speeds = [\<lparr>timestamp = 36000, hour = 10, download = 50, upload = 10\<rparr>],
              disconnections = [],
              hourly_averages = [(10, \<lparr>avg_download = 50, avg_upload = 10, samples = 1\<rparr>)],
              current_hour = 11,
              speed_extremes =
                \<lparr>max_download = \<lparr>speed = Fin 50, ex_timestamp = Some 36030\<rparr>,
                 min_download = \<lparr>speed = Fin 50, ex_timestamp = Some 36030\<rparr>,
                 max_upload = \<lparr>speed = Fin 10, ex_timestamp = Some 36030\<rparr>,
                 min_upload = \<lparr>speed = Fin 10, ex_timestamp = Some 36030\<rparr>\<rparr>\<rparr>
   in filter (\<lambda>s. hour s = current_hour st) (speeds st) = [] \<and>
      calculate_hourly_average st = Inr st \<and>
      evolves (init 36000) st \<and>
      map_of (hourly_averages st) 10 = Some \<lparr>avg_download = 50, avg_upload = 10, samples = 1\<rparr> \<and>
      1 \<le> samples \<lparr>avg_download = 50, avg_upload = 10, samples = 1\<rparr>"
proof -
  define st where "st =
     \<lparr>speeds = [\<lparr>timestamp = 36000, hour = 10, download = 50, upload = 10\<rparr>],
      disconnections = [],
      hourly_averages = [(10, \<lparr>avg_download = 50, avg_upload = 10, samples = 1\<rparr>)],
      current_hour = 11,
      speed_extremes =
        \<lparr>max_download = \<lparr>speed = Fin 50, ex_timestamp = Some 36030\<rparr>,
         min_download = \<lparr>speed = Fin 50, ex_timestamp = Some 36030\<rparr>,
         max_upload = \<lparr>speed = Fin 10, ex_timestamp = Some 36030\<rparr>,
         min_upload = \<lparr>speed = Fin 10, ex_timestamp = Some 36030\<rparr>\<rparr>\<rparr>"
  have f: "filter (\<lambda>s. hour s = current_hour st) (speeds st) = []"
    by (simp add: st_def)
  have h: "hour_change 39600 (measure_and_log 36000 (Some (50, 10, 36030)) (init 36000)) = Inr st"
    by (simp add: st_def hour_change_def measure_and_log_def calculate_hourly_average_eq
        update_speed_extremes_def init_def hour_of_def Let_def)
  have e: "evolves (init 36000) st"
    by (rule by_hour_change [OF by_log [OF same] h])
  have i: "\<forall>h a. map_of (hourly_averages (init 36000)) h = Some a \<longrightarrow> 1 \<le> samples a"
    by (simp add: init_def)
  have m: "map_of (hourly_averages st) 10 = Some \<lparr>avg_download = 50, avg_upload = 10, samples = 1\<rparr>"
    by (simp add: st_def)
  from empty_hour_writes_nothing [of st 36000 st "init 36000" st] f e i
  have "calculate_hourly_average st = Inr st \<and>
      (\<forall>h a. map_of (hourly_averages st) h = Some a \<longrightarrow> 1 \<le> samples a)"
    by blast
  with f e m show ?thesis
    unfolding Let_def st_def [symmetric] by blast
qed

text \<open>
  C8, as the claim states it, fails: there is no bucket and nothing is cleared. The
  averages of an hour are taken over every sample of the log with that hour-of-day. In a
  run through hour 10, hour 11 and hour 10 of the next day, with one sample each
  (download 50, 20 and 80), the last average for hour 10 is 65 over 2 samples, not 80
  over 1.
\<close>

theorem second_finalize_counterexample:
  "map_option (map_sum id (hourly_averages \<circ> fst))
     (run [Online 36000 (Some (50, 10, 36030)), Online 39600 (Some (20, 5, 39630)),
           Online 122400 (Some (80, 15, 122430))] 122460 (init 36000)) =
   Some (Inr [(10, \<lparr>avg_download = 65, avg_upload = 25 / 2, samples = 2\<rparr>),
              (11, \<lparr>avg_download = 20, avg_upload = 5, samples = 1\<rparr>)])"
  by (simp add: run_def hour_change_def measure_and_log_def calculate_hourly_average_eq
      update_speed_extremes_def init_def hour_of_def Let_def generate_report_def
      analyze_patterns_def groupby_hour_agg_def group_keys_def)

text \<open>
  C8, amended. \<^verbatim>\<open>calculate_hourly_average\<close> never raises and never changes the log. It
  takes the mean download, the mean upload and the count over all samples of the whole
  log whose hour equals the current hour and stores them under that hour, replacing an
  entry that was there; the other entries stay. So when samples of the current hour are
  appended to a log that already holds samples of the same hour-of-day, the next
  finalize averages the earlier and the new samples together.
\<close>

theorem finalize_averages_whole_log:
  "(\<exists>st'. calculate_hourly_average st = Inr st' \<and> speeds st' = speeds st \<and>
      current_hour st' = current_hour st \<and>
      (filter (\<lambda>s. hour s = current_hour st) (speeds st) \<noteq> [] \<longrightarrow>
         map_of (hourly_averages st') =
           (map_of (hourly_averages st))(current_hour st \<mapsto>
             \<lparr>avg_download =
                sum_list (map download (filter (\<lambda>s. hour s = current_hour st) (speeds st))) /
                real (length (filter (\<lambda>s. hour s = current_hour st) (speeds st))),
              avg_upload =
                sum_list (map upload (filter (\<lambda>s. hour s = current_hour st) (speeds st))) /
                real (length (filter (\<lambda>s. hour s = current_hour st) (speeds st))),
              samples = length (filter (\<lambda>s. hour s = current_hour st) (speeds st))\<rparr>))) \<and>
   (new \<noteq> [] \<and> (\<forall>s\<in>set new. hour s = current_hour st) \<longrightarrow>
      calculate_hourly_average (st\<lparr>speeds := speeds st @ new\<rparr>) =
        Inr (st\<lparr>speeds := speeds st @ new,
                hourly_averages :=
                  AList.update (current_hour st)
                    \<lparr>avg_download =
                       sum_list (map download (filter (\<lambda>s. hour s = current_hour st) (speeds st) @ new)) /
                       real (length (filter (\<lambda>s. hour s = current_hour st) (speeds st)) + length new),
                     avg_upload =
                       sum_list (map upload (filter (\<lambda>s. hour s = current_hour st) (speeds st) @ new)) /
                       real (length (filter (\<lambda>s. hour s = current_hour st) (speeds st)) + length new),
                     samples = length (filter (\<lambda>s. hour s = current_hour st) (speeds st)) + length new\<rparr>
                    (hourly_averages st)\<rparr>))"
proof (intro conjI impI)
  show "\<exists>st'. calculate_hourly_average st = Inr st' \<and> speeds st' = speeds st \<and>
      current_hour st' = current_hour st \<and>
      (filter (\<lambda>s. hour s = current_hour st) (speeds st) \<noteq> [] \<longrightarrow>
         map_of (hourly_averages st') =
           (map_of (hourly_averages st))(current_hour st \<mapsto>
             \<lparr>avg_download =
                sum_list (map download (filter (\<lambda>s. hour s = current_hour st) (speeds st))) /
                real (length (filter (\<lambda>s. hour s = current_hour st) (speeds st))),
              avg_upload =
                sum_list (map upload (filter (\<lambda>s. hour s = current_hour st) (speeds st))) /
                real (length (filter (\<lambda>s. hour s = current_hour st) (speeds st))),
              samples = length (filter (\<lambda>s. hour s = current_hour st) (speeds st))\<rparr>))"
    by (simp add: calculate_hourly_average_eq update_conv')
next
  assume a: "new \<noteq> [] \<and> (\<forall>s\<in>set new. hour s = current_hour st)"
  then have f: "filter (\<lambda>s. hour s = current_hour st) new = new"
    by simp
  from a show "calculate_hourly_average (st\<lparr>speeds := speeds st @ new\<rparr>) =
        Inr (st\<lparr>speeds := speeds st @ new,
                hourly_averages :=
                  AList.update (current_hour st)
                    \<lparr>avg_download =
                       sum_list (map download (filter (\<lambda>s. hour s = current_hour st) (speeds st) @ new)) /
                       real (length (filter (\<lambda>s. hour s = current_hour st) (speeds st)) + length new),
                     avg_upload =
                       sum_list (map upload (filter (\<lambda>s. hour s = current_hour st) (speeds st) @ new)) /
                       real (length (filter (\<lambda>s. hour s = current_hour st) (speeds st)) + length new),
                     samples = length (filter (\<lambda>s. hour s = current_hour st) (speeds st)) + length new\<rparr>
                    (hourly_averages st)\<rparr>)"
    by (simp add: calculate_hourly_average_eq f)
qed

theorem finalize_averages_whole_log_witness:
  "let st = (init 36000)
              \<lparr>speeds := [\<lparr>timestamp = 36000, hour = 10, download = 50, upload = 10\<rparr>,
                          \<lparr>timestamp = 39600, hour = 11, download = 20, upload = 5\<rparr>],
               hourly_averages := [(10, \<lparr>avg_download = 50, avg_upload = 10, samples = 1\<rparr>),
                                   (11, \<lparr>avg_download = 20, avg_upload = 5, samples = 1\<rparr>)]\<rparr>;
       new = [\<lparr>timestamp = 122400, hour = 10, download = 80, upload = 15\<rparr>]
   in filter (\<lambda>s. hour s = current_hour st) (speeds st) \<noteq> [] \<and>
      new \<noteq> [] \<and> map hour new = [current_hour st] \<and>
      (\<exists>st'. calculate_hourly_average st = Inr st' \<and>
         map_of (hourly_averages st') 10 = Some \<lparr>avg_download = 50, avg_upload = 10, samples = 1\<rparr>) \<and>
      calculate_hourly_average (st\<lparr>speeds := speeds st @ new\<rparr>) =
        Inr (st\<lparr>speeds := speeds st @ new,
                hourly_averages := [(10, \<lparr>avg_download = 65, avg_upload = 25 / 2, samples = 2\<rparr>),
                                    (11, \<lparr>avg_download = 20, avg_upload = 5, samples = 1\<rparr>)]\<rparr>)"
proof -
  define st where "st = (init 36000)
              \<lparr>speeds := [\<lparr>timestamp = 36000, hour = 10, download = 50, upload = 10\<rparr>,
                          \<lparr>timestamp = 39600, hour = 11, download = 20, upload = 5\<rparr>],
               hourly_averages := [(10, \<lparr>avg_download = 50, avg_upload = 10, samples = 1\<rparr>),
                                   (11, \<lparr>avg_download = 20, avg_upload = 5, samples = 1\<rparr>)]\<rparr>"
  define new where "new = [\<lparr>timestamp = 122400, hour = 10, download = 80, upload = 15\<rparr>]"
  have c: "current_hour st = 10"
    by (simp add: st_def init_def hour_of_def)
  have f: "filter (\<lambda>s. hour s = current_hour st) (speeds st) =
      [\<lparr>timestamp = 36000, hour = 10, download = 50, upload = 10\<rparr>]"
    by (simp add: c) (simp add: st_def)
  have f10: "filter (\<lambda>s. hour s = 10) (speeds st) =
      [\<lparr>timestamp = 36000, hour = 10, download = 50, upload = 10\<rparr>]"
    by (simp add: st_def)
  have n: "new \<noteq> [] \<and> (\<forall>s\<in>set new. hour s = current_hour st)"
    by (simp add: c new_def)
  have h: "hourly_averages st = [(10, \<lparr>avg_download = 50, avg_upload = 10, samples = 1\<rparr>),
                                   (11, \<lparr>avg_download = 20, avg_upload = 5, samples = 1\<rparr>)]"
    by (simp add: st_def)
  note t = finalize_averages_whole_log [of st new]
  from t have 1: "\<exists>st'. calculate_hourly_average st = Inr st' \<and>
         map_of (hourly_averages st') 10 = Some \<lparr>avg_download = 50, avg_upload = 10, samples = 1\<rparr>"
    by (auto simp: f10 c h)
  from t n have "calculate_hourly_average (st\<lparr>speeds := speeds st @ new\<rparr>) =
        Inr (st\<lparr>speeds := speeds st @ new,
                hourly_averages :=
                  AList.update 10
                    \<lparr>avg_download =
                       sum_list (map download (filter (\<lambda>s. hour s = 10) (speeds st) @ new)) /
                       real (length (filter (\<lambda>s. hour s = 10) (speeds st)) + length new),
                     avg_upload =
                       sum_list (map upload (filter (\<lambda>s. hour s = 10) (speeds st) @ new)) /
                       real (length (filter (\<lambda>s. hour s = 10) (speeds st)) + length new),
                     samples = length (filter (\<lambda>s. hour s = 10) (speeds st)) + length new\<rparr>
                    (hourly_averages st)\<rparr>)"
    unfolding c by blast
  then have 2: "calculate_hourly_average (st\<lparr>speeds := speeds st @ new\<rparr>) =
        Inr (st\<lparr>speeds := speeds st @ new,
                hourly_averages := [(10, \<lparr>avg_download = 65, avg_upload = 25 / 2, samples = 2\<rparr>),
                                    (11, \<lparr>avg_download = 20, avg_upload = 5, samples = 1\<rparr>)]\<rparr>)"
    by (simp add: f10 h new_def)
  have n': "new \<noteq> [] \<and> map hour new = [current_hour st]"
    by (simp add: c new_def)
  from f n' 1 2 show ?thesis
    unfolding Let_def st_def [symmetric] new_def [symmetric] by simp
qed

section \<open>Properties of the pattern analysis\<close>

lemma analyze_patterns_single:
  "analyze_patterns (st\<lparr>speeds := [s]\<rparr>) =
     Inr (Some
       \<lparr>peak_hours = \<lparr>for_download = hour_of (timestamp s), for_upload = hour_of (timestamp s)\<rparr>,
        low_hours = \<lparr>for_download = hour_of (timestamp s), for_upload = hour_of (timestamp s)\<rparr>,
        stability = \<lparr>for_download = None, for_upload = None\<rparr>,
        hourly_patterns =
          [\<lparr>pattern_hour = hour_of (timestamp s),
            download_mean = download s, download_std = None,
            upload_mean = upload s, upload_std = None\<rparr>]\<rparr>)"
  by (simp add: analyze_patterns_def groupby_hour_agg_def group_keys_def agg_mean_def agg_std_def
      series_mean_def List.map_filter_simps Let_def)

lemma single_row_std:
  assumes "r \<in> set (groupby_hour_agg df)"
    and "length (filter (\<lambda>s. hour_of (timestamp s) = pattern_hour r) df) = 1"
  shows "download_std r = None \<and> upload_std r = None"
proof -
  from assms(1) obtain h where
    r: "r = \<lparr>pattern_hour = h,
              download_mean = agg_mean (map download (filter (\<lambda>s. hour_of (timestamp s) = h) df)),
              download_std = agg_std (map download (filter (\<lambda>s. hour_of (timestamp s) = h) df)),
              upload_mean = agg_mean (map upload (filter (\<lambda>s. hour_of (timestamp s) = h) df)),
              upload_std = agg_std (map upload (filter (\<lambda>s. hour_of (timestamp s) = h) df))\<rparr>"
    by (auto simp: groupby_hour_agg_def Let_def)
  then have "pattern_hour r = h" by simp
  with assms(2) have "length (filter (\<lambda>s. hour_of (timestamp s) = h) df) = 1" by simp
  then show ?thesis by (simp add: r agg_std_def)
qed

lemma group_keys_nonempty: "df \<noteq> [] \<Longrightarrow> group_keys df \<noteq> []"
  by (cases df) (auto simp: group_keys_def dest: arg_cong [where f = set])

lemma idxmax_returns: "rows \<noteq> [] \<Longrightarrow> \<exists>h. idxmax rows = Inr h"
  by (cases rows) auto

lemma idxmin_returns: "rows \<noteq> [] \<Longrightarrow> \<exists>h. idxmin rows = Inr h"
  by (cases rows) auto

lemma analyze_patterns_nonempty:
  assumes "speeds st \<noteq> []"
  shows "\<exists>p. analyze_patterns st = Inr (Some p) \<and>
           hourly_patterns p = groupby_hour_agg (speeds st) \<and>
           for_download (stability p) = series_mean (map download_std (hourly_patterns p)) \<and>
           for_upload (stability p) = series_mean (map upload_std (hourly_patterns p))"
proof -
  from assms have ne: "groupby_hour_agg (speeds st) \<noteq> []"
    by (simp add: groupby_hour_agg_def group_keys_nonempty)
  obtain a where a: "idxmax (map (\<lambda>r. (pattern_hour r, download_mean r)) (groupby_hour_agg (speeds st))) = Inr a"
    using idxmax_returns ne by (metis map_is_Nil_conv)
  obtain b where b: "idxmax (map (\<lambda>r. (pattern_hour r, upload_mean r)) (groupby_hour_agg (speeds st))) = Inr b"
    using idxmax_returns ne by (metis map_is_Nil_conv)
  obtain c where c: "idxmin (map (\<lambda>r. (pattern_hour r, download_mean r)) (groupby_hour_agg (speeds st))) = Inr c"
    using idxmin_returns ne by (metis map_is_Nil_conv)
  obtain d where d: "idxmin (map (\<lambda>r. (pattern_hour r, upload_mean r)) (groupby_hour_agg (speeds st))) = Inr d"
    using idxmin_returns ne by (metis map_is_Nil_conv)
  from assms a b c d show ?thesis
    by (simp add: analyze_patterns_def Let_def)
qed

lemma map_filter_id_append:
  "List.map_filter (\<lambda>v. v) (xs @ ys) = List.map_filter (\<lambda>v. v) xs @ List.map_filter (\<lambda>v. v) ys"
  by (simp add: List.map_filter_def)

lemma series_mean_skips_anywhere: "series_mean (xs @ None # ys) = series_mean (xs @ ys)"
  by (simp add: series_mean_def map_filter_id_append List.map_filter_simps)

lemma map_filter_id_defined:
  "List.map_filter (\<lambda>v. v) (filter (\<lambda>v. v \<noteq> None) col) = List.map_filter (\<lambda>v. v) col"
  by (induction col) (auto simp: List.map_filter_simps)

lemma series_mean_defined_only: "series_mean col = series_mean (filter (\<lambda>v. v \<noteq> None) col)"
  by (simp only: series_mean_def map_filter_id_defined)

lemma map_filter_id_Some: "List.map_filter (\<lambda>v. v) (map Some vs) = vs"
  by (induction vs) (auto simp: List.map_filter_simps)

lemma series_mean_all_defined:
  "series_mean (map Some vs) = (if vs = [] then None else Some (sum_list vs / real (length vs)))"
  by (simp add: series_mean_def map_filter_id_Some)

text \<open>
  C1, as the claim states it, fails in the stability score: pandas computes the sample
  standard deviation, which is \<^verbatim>\<open>NaN\<close> for the one row of the single hour, and the mean
  of that column is \<^verbatim>\<open>NaN\<close> as well. The score of a log of one sample is undefined in
  both directions, not 0.
\<close>

theorem single_sample_stability_counterexample:
  "analyze_patterns
     ((init 36000)\<lparr>speeds := [\<lparr>timestamp = 36000, hour = 10, download = 50, upload = 10\<rparr>]\<rparr>) =
   Inr (Some
     \<lparr>peak_hours = \<lparr>for_download = 10, for_upload = 10\<rparr>,
      low_hours = \<lparr>for_download = 10, for_upload = 10\<rparr>,
      stability = \<lparr>for_download = None, for_upload = None\<rparr>,
      hourly_patterns =
        [\<lparr>pattern_hour = 10, download_mean = 50, download_std = None,
          upload_mean = 10, upload_std = None\<rparr>]\<rparr>)"
  by (simp add: analyze_patterns_single) (simp add: hour_of_def)

text \<open>
  C1, amended. For a log of exactly one sample \<^verbatim>\<open>analyze_patterns\<close> returns the hour of
  that sample as peak hour and as low hour, for download and for upload, and an
  undefined stability score (\<^verbatim>\<open>NaN\<close>) for each direction. In general the row of an hour
  with a single sample has an undefined standard deviation in both directions. The
  stability score of a direction is the mean of that column over the rows of all hours,
  and this mean skips an undefined entry wherever it stands: it is the arithmetic mean of
  the defined entries, and undefined when there is none.
\<close>

theorem single_sample_patterns:
  "analyze_patterns (st\<lparr>speeds := [s]\<rparr>) =
     Inr (Some
       \<lparr>peak_hours = \<lparr>for_download = hour_of (timestamp s), for_upload = hour_of (timestamp s)\<rparr>,
        low_hours = \<lparr>for_download = hour_of (timestamp s), for_upload = hour_of (timestamp s)\<rparr>,
        stability = \<lparr>for_download = None, for_upload = None\<rparr>,
        hourly_patterns =
          [\<lparr>pattern_hour = hour_of (timestamp s),
            download_mean = download s, download_std = None,
            upload_mean = upload s, upload_std = None\<rparr>]\<rparr>) \<and>
   (r \<in> set (groupby_hour_agg df) \<and>
    length (filter (\<lambda>s. hour_of (timestamp s) = pattern_hour r) df) = 1 \<longrightarrow>
      download_std r = None \<and> upload_std r = None) \<and>
   (speeds st2 \<noteq> [] \<longrightarrow>
      (\<exists>p. analyze_patterns st2 = Inr (Some p) \<and>
         hourly_patterns p = groupby_hour_agg (speeds st2) \<and>
         for_download (stability p) = series_mean (map download_std (hourly_patterns p)) \<and>
         for_upload (stability p) = series_mean (map upload_std (hourly_patterns p)))) \<and>
   series_mean (xs @ None # ys) = series_mean (xs @ ys) \<and>
   series_mean col = series_mean (filter (\<lambda>v. v \<noteq> None) col) \<and>
   series_mean (map Some vs) = (if vs = [] then None else Some (sum_list vs / real (length vs)))"
  using analyze_patterns_single single_row_std analyze_patterns_nonempty
    series_mean_skips_anywhere series_mean_defined_only series_mean_all_defined
  by blast

theorem single_sample_patterns_witness:
  "\<lparr>pattern_hour = 11, download_mean = 20, download_std = None, upload_mean = 5, upload_std = None\<rparr>
     \<in> set (groupby_hour_agg
         [\<lparr>timestamp = 36000, hour = 10, download = 50, upload = 10\<rparr>,
          \<lparr>timestamp = 36060, hour = 10, download = 80, upload = 15\<rparr>,
          \<lparr>timestamp = 39600, hour = 11, download = 20, upload = 5\<rparr>]) \<and>
   length (filter (\<lambda>s. hour_of (timestamp s) = 11)
         [\<lparr>timestamp = 36000, hour = 10, download = 50, upload = 10\<rparr>,
          \<lparr>timestamp = 36060, hour = 10, download = 80, upload = 15\<rparr>,
          \<lparr>timestamp = 39600, hour = 11, download = 20, upload = 5\<rparr>]) = 1 \<and>
   (\<exists>p. analyze_patterns ((init 36000)
         \<lparr>speeds := [\<lparr>timestamp = 36000, hour = 10, download = 50, upload = 10\<rparr>,
                     \<lparr>timestamp = 36060, hour = 10, download = 80, upload = 15\<rparr>,
                     \<lparr>timestamp = 39600, hour = 11, download = 20, upload = 5\<rparr>]\<rparr>) = Inr (Some p) \<and>
       for_download (stability p) = Some (sqrt 450)) \<and>
   series_mean [Some 3, None, Some 5, None] = Some 4"
proof -
  let ?df = "[\<lparr>timestamp = 36000, hour = 10, download = 50, upload = 10\<rparr>,
          \<lparr>timestamp = 36060, hour = 10, download = 80, upload = 15\<rparr>,
          \<lparr>timestamp = 39600, hour = 11, download = 20, upload = 5\<rparr>]"
  let ?r = "\<lparr>pattern_hour = 11, download_mean = 20, download_std = None,
             upload_mean = 5, upload_std = None\<rparr>"
  let ?st = "(init 36000)\<lparr>speeds := ?df\<rparr>"
  have g: "groupby_hour_agg ?df =
      [\<lparr>pattern_hour = 10, download_mean = 65, download_std = Some (sqrt 450),
        upload_mean = 25 / 2, upload_std = Some (sqrt (25 / 2))\<rparr>, ?r]"
    by (simp add: groupby_hour_agg_def group_keys_def agg_mean_def agg_std_def hour_of_def Let_def
        power2_eq_square)
  have m: "?r \<in> set (groupby_hour_agg ?df)"
    by (simp add: g)
  have l: "length (filter (\<lambda>s. hour_of (timestamp s) = 11) ?df) = 1"
    by (simp add: hour_of_def)
  have n: "speeds ?st \<noteq> []"
    by simp
  note t = single_sample_patterns [where r = ?r and df = ?df and ?st2.0 = ?st]
  from t m l have "download_std ?r = None \<and> upload_std ?r = None"
    by simp
  from t n obtain p where p: "analyze_patterns ?st = Inr (Some p)"
    "hourly_patterns p = groupby_hour_agg (speeds ?st)"
    "for_download (stability p) = series_mean (map download_std (hourly_patterns p))"
    by blast
  have "series_mean [Some (sqrt 450), None] = series_mean [Some (sqrt 450)]"
    using t [where xs = "[Some (sqrt 450)]" and ys = "[]"] by simp
  also have "\<dots> = Some (sqrt 450)"
    using t [where vs = "[sqrt 450]"] by simp
  finally have "for_download (stability p) = Some (sqrt 450)"
    using p(2,3) by (simp add: g)
  with p(1) have a: "\<exists>p. analyze_patterns ?st = Inr (Some p) \<and>
       for_download (stability p) = Some (sqrt 450)"
    by blast
  have "series_mean [Some 3, None, Some 5, None] = series_mean [Some 3, Some 5, None]"
    using t [where xs = "[Some 3]" and ys = "[Some 5, None]"] by simp
  also have "\<dots> = series_mean [Some 3, Some 5]"
    using t [where xs = "[Some 3, Some 5]" and ys = "[]"] by simp
  also have "\<dots> = Some 4"
    using t [where vs = "[3, 5]"] by simp
  finally have s: "series_mean [Some 3, None, Some 5, None] = Some 4" .
  from m l a s show ?thesis by blast
qed

section \<open>Properties of the report and of the loop\<close>





lemmas run_steps = run_def hour_change_def measure_and_log_def calculate_hourly_average_eq
  update_speed_extremes_def init_def hour_of_def Let_def




lemma first_hour_change:
  "hour_change t (init t0) = Inr ((init t0)\<lparr>current_hour := hour_of t\<rparr>)"
  by (simp add: hour_change_def calculate_hourly_average_eq init_def)

lemma scenario_loop:
  assumes "hour_of t1 = 10" "hour_of t2 = 10" "hour_of t3 = 11"
  shows "run_loop [Online t1 (Some (50, 10, e1)), Online t2 (Some (80, 15, e2)),
                   Online t3 (Some (20, 5, e3))] (init t0) =
     Some (Inr
       \<lparr>speeds = [\<lparr>timestamp = t1, hour = 10, download = 50, upload = 10\<rparr>,
                  \<lparr>timestamp = t2, hour = 10, download = 80, upload = 15\<rparr>,
                  \<lparr>timestamp = t3, hour = 11, download = 20, upload = 5\<rparr>],
        disconnections = [],
        hourly_averages = [(10, \<lparr>avg_download = 65, avg_upload = 25 / 2, samples = 2\<rparr>)],
        current_hour = 11,
        speed_extremes =
          \<lparr>max_download = \<lparr>speed = Fin 80, ex_timestamp = Some e2\<rparr>,
           min_download = \<lparr>speed = Fin 20, ex_timestamp = Some e3\<rparr>,
           max_upload = \<lparr>speed = Fin 15, ex_timestamp = Some e2\<rparr>,
           min_upload = \<lparr>speed = Fin 5, ex_timestamp = Some e3\<rparr>\<rparr>\<rparr>)"
  using assms
  by (simp add: first_hour_change)
     (simp add: hour_change_def measure_and_log_def calculate_hourly_average_eq
        update_speed_extremes_def init_def Let_def)

text \<open>
  C6, as the claim states it, fails in the hour of the maximum: the hour of a sample is
  read before the speed test and the timestamp of an extreme after it. With the second
  sample taken ten seconds before eleven o'clock and its test ending ten seconds after,
  the sample log is the one of the scenario (hours 10, 10, 11) and the maximum download
  of 80 is stamped in hour 11.
\<close>

theorem three_sample_scenario_counterexample:
  "map_option (map_sum id fst)
     (run [Online 36000 (Some (50, 10, 36030)), Online 39590 (Some (80, 15, 39610)),
           Online 39600 (Some (20, 5, 39630))] 39660 (init 36000)) =
   Some (Inr
     \<lparr>speeds = [\<lparr>timestamp = 36000, hour = 10, download = 50, upload = 10\<rparr>,
                \<lparr>timestamp = 39590, hour = 10, download = 80, upload = 15\<rparr>,
                \<lparr>timestamp = 39600, hour = 11, download = 20, upload = 5\<rparr>],
      disconnections = [],
      hourly_averages = [(10, \<lparr>avg_download = 65, avg_upload = 25 / 2, samples = 2\<rparr>),
                         (11, \<lparr>avg_download = 20, avg_upload = 5, samples = 1\<rparr>)],
      current_hour = 11,
      speed_extremes =
        \<lparr>max_download = \<lparr>speed = Fin 80, ex_timestamp = Some 39610\<rparr>,
         min_download = \<lparr>speed = Fin 20, ex_timestamp = Some 39630\<rparr>,
         max_upload = \<lparr>speed = Fin 15, ex_timestamp = Some 39610\<rparr>,
         min_upload = \<lparr>speed = Fin 5, ex_timestamp = Some 39630\<rparr>\<rparr>\<rparr>) \<and>
   hour_of 39610 = 11"
  by (simp add: run_steps generate_report_def analyze_patterns_def groupby_hour_agg_def
      group_keys_def)

text \<open>
  C6, amended. Take any run over the three samples of the scenario: two with a timestamp
  in hour 10 (download 50 and 80, upload 10 and 15) and one with a timestamp in hour 11
  (download 20, upload 5), whatever the clock reads when the monitor is created, when
  the extremes are updated and when the report is written. The hour changes before the
  third sample, which finalizes hour 10; hour 11 is finalized after the loop. The
  maximum download is 80 and the minimum 20, each stamped with the clock reading taken
  when the extremes were updated after its speed test; the hourly averages are 65 and
  12.5 over 2 samples for hour 10 and 20 and 5 over 1 sample for hour 11; the peak
  download hour is 10 and the low download hour is 11.
\<close>

theorem three_sample_scenario:
  "hour_of t1 = 10 \<and> hour_of t2 = 10 \<and> hour_of t3 = 11 \<longrightarrow>
   (let st = \<lparr>speeds = [\<lparr>timestamp = t1, hour = 10, download = 50, upload = 10\<rparr>,
                        \<lparr>timestamp = t2, hour = 10, download = 80, upload = 15\<rparr>,
                        \<lparr>timestamp = t3, hour = 11, download = 20, upload = 5\<rparr>],
              disconnections = [],
              hourly_averages = [(10, \<lparr>avg_download = 65, avg_upload = 25 / 2, samples = 2\<rparr>),
                                 (11, \<lparr>avg_download = 20, avg_upload = 5, samples = 1\<rparr>)],
              current_hour = 11,
              speed_extremes =
                \<lparr>max_download = \<lparr>speed = Fin 80, ex_timestamp = Some e2\<rparr>,
                 min_download = \<lparr>speed = Fin 20, ex_timestamp = Some e3\<rparr>,
                 max_upload = \<lparr>speed = Fin 15, ex_timestamp = Some e2\<rparr>,
                 min_upload = \<lparr>speed = Fin 5, ex_timestamp = Some e3\<rparr>\<rparr>\<rparr>
    in map_option (map_sum id fst)
         (run [Online t1 (Some (50, 10, e1)), Online t2 (Some (80, 15, e2)),
               Online t3 (Some (20, 5, e3))] now (init t0)) = Some (Inr st) \<and>
       map_option hour_of (ex_timestamp (max_download (speed_extremes st))) = Some (hour_of e2) \<and>
       map_option hour_of (ex_timestamp (min_download (speed_extremes st))) = Some (hour_of e3) \<and>
       analyze_patterns st =
         Inr (Some
           \<lparr>peak_hours = \<lparr>for_download = 10, for_upload = 10\<rparr>,
            low_hours = \<lparr>for_download = 11, for_upload = 11\<rparr>,
            stability = \<lparr>for_download = Some (sqrt 450), for_upload = Some (sqrt (25 / 2))\<rparr>,
            hourly_patterns =
              [\<lparr>pattern_hour = 10, download_mean = 65, download_std = Some (sqrt 450),
                upload_mean = 25 / 2, upload_std = Some (sqrt (25 / 2))\<rparr>,
               \<lparr>pattern_hour = 11, download_mean = 20, download_std = None,
                upload_mean = 5, upload_std = None\<rparr>]\<rparr>))"
proof
  assume h: "hour_of t1 = 10 \<and> hour_of t2 = 10 \<and> hour_of t3 = 11"
  define st where "st =
     \<lparr>speeds = [\<lparr>timestamp = t1, hour = 10, download = 50, upload = 10\<rparr>,
                \<lparr>timestamp = t2, hour = 10, download = 80, upload = 15\<rparr>,
                \<lparr>timestamp = t3, hour = 11, download = 20, upload = 5\<rparr>],
      disconnections = [],
      hourly_averages = [(10, \<lparr>avg_download = 65, avg_upload = 25 / 2, samples = 2\<rparr>),
                         (11, \<lparr>avg_download = 20, avg_upload = 5, samples = 1\<rparr>)],
      current_hour = 11,
      speed_extremes =
        \<lparr>max_download = \<lparr>speed = Fin 80, ex_timestamp = Some e2\<rparr>,
         min_download = \<lparr>speed = Fin 20, ex_timestamp = Some e3\<rparr>,
         max_upload = \<lparr>speed = Fin 15, ex_timestamp = Some e2\<rparr>,
         min_upload = \<lparr>speed = Fin 5, ex_timestamp = Some e3\<rparr>\<rparr>\<rparr>"
  have a: "analyze_patterns st =
         Inr (Some
           \<lparr>peak_hours = \<lparr>for_download = 10, for_upload = 10\<rparr>,
            low_hours = \<lparr>for_download = 11, for_upload = 11\<rparr>,
            stability = \<lparr>for_download = Some (sqrt 450), for_upload = Some (sqrt (25 / 2))\<rparr>,
            hourly_patterns =
              [\<lparr>pattern_hour = 10, download_mean = 65, download_std = Some (sqrt 450),
                upload_mean = 25 / 2, upload_std = Some (sqrt (25 / 2))\<rparr>,
               \<lparr>pattern_hour = 11, download_mean = 20, download_std = None,
                upload_mean = 5, upload_std = None\<rparr>]\<rparr>)"
    using h
    by (simp add: st_def analyze_patterns_def groupby_hour_agg_def group_keys_def agg_mean_def
        agg_std_def series_mean_def List.map_filter_simps Let_def power2_eq_square)
  have l: "run_loop [Online t1 (Some (50, 10, e1)), Online t2 (Some (80, 15, e2)),
               Online t3 (Some (20, 5, e3))] (init t0) =
      Some (Inr (st\<lparr>hourly_averages :=
        [(10, \<lparr>avg_download = 65, avg_upload = 25 / 2, samples = 2\<rparr>)]\<rparr>))"
    using h scenario_loop [of t1 t2 t3 e1 e2 e3 t0] by (simp add: st_def)
  have c: "calculate_hourly_average (st\<lparr>hourly_averages :=
        [(10, \<lparr>avg_download = 65, avg_upload = 25 / 2, samples = 2\<rparr>)]\<rparr>) = Inr st"
    by (simp add: calculate_hourly_average_eq st_def)
  have r: "map_option (map_sum id fst)
         (run [Online t1 (Some (50, 10, e1)), Online t2 (Some (80, 15, e2)),
               Online t3 (Some (20, 5, e3))] now (init t0)) = Some (Inr st)"
    unfolding run_def l by (simp add: c generate_report_def a Let_def)
  have e: "map_option hour_of (ex_timestamp (max_download (speed_extremes st))) = Some (hour_of e2)"
    "map_option hour_of (ex_timestamp (min_download (speed_extremes st))) = Some (hour_of e3)"
    by (simp_all add: st_def)
  from r e a show "let st = \<lparr>speeds = [\<lparr>timestamp = t1, hour = 10, download = 50, upload = 10\<rparr>,
                        \<lparr>timestamp = t2, hour = 10, download = 80, upload = 15\<rparr>,
                        \<lparr>timestamp = t3, hour = 11, download = 20, upload = 5\<rparr>],
              disconnections = [],
              hourly_averages = [(10, \<lparr>avg_download = 65, avg_upload = 25 / 2, samples = 2\<rparr>),
                                 (11, \<lparr>avg_download = 20, avg_upload = 5, samples = 1\<rparr>)],
              current_hour = 11,
              speed_extremes =
                \<lparr>max_download = \<lparr>speed = Fin 80, ex_timestamp = Some e2\<rparr>,
                 min_download = \<lparr>speed = Fin 20, ex_timestamp = Some e3\<rparr>,
                 max_upload = \<lparr>speed = Fin 15, ex_timestamp = Some e2\<rparr>,
                 min_upload = \<lparr>speed = Fin 5, ex_timestamp = Some e3\<rparr>\<rparr>\<rparr>
    in map_option (map_sum id fst)
         (run [Online t1 (Some (50, 10, e1)), Online t2 (Some (80, 15, e2)),
               Online t3 (Some (20, 5, e3))] now (init t0)) = Some (Inr st) \<and>
       map_option hour_of (ex_timestamp (max_download (speed_extremes st))) = Some (hour_of e2) \<and>
       map_option hour_of (ex_timestamp (min_download (speed_extremes st))) = Some (hour_of e3) \<and>
       analyze_patterns st =
         Inr (Some
           \<lparr>peak_hours = \<lparr>for_download = 10, for_upload = 10\<rparr>,
            low_hours = \<lparr>for_download = 11, for_upload = 11\<rparr>,
            stability = \<lparr>for_download = Some (sqrt 450), for_upload = Some (sqrt (25 / 2))\<rparr>,
            hourly_patterns =
              [\<lparr>pattern_hour = 10, download_mean = 65, download_std = Some (sqrt 450),
                upload_mean = 25 / 2, upload_std = Some (sqrt (25 / 2))\<rparr>,
               \<lparr>pattern_hour = 11, download_mean = 20, download_std = None,
                upload_mean = 5, upload_std = None\<rparr>]\<rparr>)"
    unfolding Let_def st_def [symmetric] by blast
qed

theorem three_sample_scenario_witness:
  "hour_of 36000 = 10 \<and> hour_of 36060 = 10 \<and> hour_of 39600 = 11 \<and>
   hour_of 36090 = 10 \<and> hour_of 39630 = 11 \<and>
   map_option (map_sum id fst)
     (run [Online 36000 (Some (50, 10, 36030)), Online 36060 (Some (80, 15, 36090)),
           Online 39600 (Some (20, 5, 39630))] 39660 (init 36000)) =
   Some (Inr
     \<lparr>speeds = [\<lparr>timestamp = 36000, hour = 10, download = 50, upload = 10\<rparr>,
                \<lparr>timestamp = 36060, hour = 10, download = 80, upload = 15\<rparr>,
                \<lparr>timestamp = 39600, hour = 11, download = 20, upload = 5\<rparr>],
      disconnections = [],
      hourly_averages = [(10, \<lparr>avg_download = 65, avg_upload = 25 / 2, samples = 2\<rparr>),
                         (11, \<lparr>avg_download = 20, avg_upload = 5, samples = 1\<rparr>)],
      current_hour = 11,
      speed_extremes =
        \<lparr>max_download = \<lparr>speed = Fin 80, ex_timestamp = Some 36090\<rparr>,
         min_download = \<lparr>speed = Fin 20, ex_timestamp = Some 39630\<rparr>,
         max_upload = \<lparr>speed = Fin 15, ex_timestamp = Some 36090\<rparr>,
         min_upload = \<lparr>speed = Fin 5, ex_timestamp = Some 39630\<rparr>\<rparr>\<rparr>)"
proof -
  have h: "hour_of 36000 = 10 \<and> hour_of 36060 = 10 \<and> hour_of 39600 = 11"
    and g: "hour_of 36090 = 10 \<and> hour_of 39630 = 11"
    by (simp_all add: hour_of_def)
  from three_sample_scenario [of 36000 36060 39600 36090 39630 36030 39660 36000] h
  have "map_option (map_sum id fst)
     (run [Online 36000 (Some (50, 10, 36030)), Online 36060 (Some (80, 15, 36090)),
           Online 39600 (Some (20, 5, 39630))] 39660 (init 36000)) =
   Some (Inr
     \<lparr>speeds = [\<lparr>timestamp = 36000, hour = 10, download = 50, upload = 10\<rparr>,
                \<lparr>timestamp = 36060, hour = 10, download = 80, upload = 15\<rparr>,
                \<lparr>timestamp = 39600, hour = 11, download = 20, upload = 5\<rparr>],
      disconnections = [],
      hourly_averages = [(10, \<lparr>avg_download = 65, avg_upload = 25 / 2, samples = 2\<rparr>),
                         (11, \<lparr>avg_download = 20, avg_upload = 5, samples = 1\<rparr>)],
      current_hour = 11,
      speed_extremes =
        \<lparr>max_download = \<lparr>speed = Fin 80, ex_timestamp = Some 36090\<rparr>,
         min_download = \<lparr>speed = Fin 20, ex_timestamp = Some 39630\<rparr>,
         max_upload = \<lparr>speed = Fin 15, ex_timestamp = Some 36090\<rparr>,
         min_upload = \<lparr>speed = Fin 5, ex_timestamp = Some 39630\<rparr>\<rparr>\<rparr>)"
    unfolding Let_def by blast
  with h g show ?thesis by blast
qed

text \<open>
  C10. A speed test that succeeds with a download or an upload of exactly 0 changes the
  extremes and nothing else: the sample is not appended to the log. Where the recorded
  minimum was above 0 it becomes 0, with the time of the test. From the initial state
  one such test leaves a minimum download of 0 next to an empty log.
\<close>

theorem zero_speed_updates_extremes_only:
  "(d = 0 \<or> u = 0 \<longrightarrow>
      measure_and_log current_time (Some (d, u, t)) st = update_speed_extremes d u t st \<and>
      speeds (measure_and_log current_time (Some (d, u, t)) st) = speeds st) \<and>
   (undercuts 0 (speed (min_download (speed_extremes st))) \<longrightarrow>
      min_download (speed_extremes (measure_and_log current_time (Some (0, u, t)) st)) =
        \<lparr>speed = Fin 0, ex_timestamp = Some t\<rparr>) \<and>
   (undercuts 0 (speed (min_upload (speed_extremes st))) \<longrightarrow>
      min_upload (speed_extremes (measure_and_log current_time (Some (d, 0, t)) st)) =
        \<lparr>speed = Fin 0, ex_timestamp = Some t\<rparr>) \<and>
   run_loop [Online 36000 (Some (0, 5, 36030))] (init 36000) =
     Some (Inr
       \<lparr>speeds = [], disconnections = [], hourly_averages = [], current_hour = 10,
        speed_extremes =
          \<lparr>max_download = \<lparr>speed = Fin 0, ex_timestamp = None\<rparr>,
           min_download = \<lparr>speed = Fin 0, ex_timestamp = Some 36030\<rparr>,
           max_upload = \<lparr>speed = Fin 5, ex_timestamp = Some 36030\<rparr>,
           min_upload = \<lparr>speed = Fin 5, ex_timestamp = Some 36030\<rparr>\<rparr>\<rparr>)"
proof (intro conjI impI)
  assume z: "d = 0 \<or> u = 0"
  then show "measure_and_log current_time (Some (d, u, t)) st = update_speed_extremes d u t st"
    by (auto simp: measure_and_log_def)
  then show "speeds (measure_and_log current_time (Some (d, u, t)) st) = speeds st"
    by simp
next
  assume "undercuts 0 (speed (min_download (speed_extremes st)))"
  then show "min_download (speed_extremes (measure_and_log current_time (Some (0, u, t)) st)) =
        \<lparr>speed = Fin 0, ex_timestamp = Some t\<rparr>"
    by (simp add: measure_and_log_def update_min_download)
next
  assume "undercuts 0 (speed (min_upload (speed_extremes st)))"
  then show "min_upload (speed_extremes (measure_and_log current_time (Some (d, 0, t)) st)) =
        \<lparr>speed = Fin 0, ex_timestamp = Some t\<rparr>"
    by (simp add: measure_and_log_def update_min_upload)
next
  show "run_loop [Online 36000 (Some (0, 5, 36030))] (init 36000) =
     Some (Inr
       \<lparr>speeds = [], disconnections = [], hourly_averages = [], current_hour = 10,
        speed_extremes =
          \<lparr>max_download = \<lparr>speed = Fin 0, ex_timestamp = None\<rparr>,
           min_download = \<lparr>speed = Fin 0, ex_timestamp = Some 36030\<rparr>,
           max_upload = \<lparr>speed = Fin 5, ex_timestamp = Some 36030\<rparr>,
           min_upload = \<lparr>speed = Fin 5, ex_timestamp = Some 36030\<rparr>\<rparr>\<rparr>)"
    by (simp add: run_steps)
qed

theorem zero_speed_updates_extremes_only_witness:
  "undercuts 0 (speed (min_download (speed_extremes (init 36000)))) \<and>
   undercuts 0 (speed (min_upload (speed_extremes (init 36000)))) \<and>
   speeds (measure_and_log 36000 (Some (0, 5, 36030)) (init 36000)) = [] \<and>
   min_download (speed_extremes (measure_and_log 36000 (Some (0, 5, 36030)) (init 36000))) =
     \<lparr>speed = Fin 0, ex_timestamp = Some 36030\<rparr> \<and>
   min_upload (speed_extremes (measure_and_log 36000 (Some (7, 0, 36030)) (init 36000))) =
     \<lparr>speed = Fin 0, ex_timestamp = Some 36030\<rparr>"
proof -
  have a: "undercuts 0 (speed (min_download (speed_extremes (init 36000))))"
    and b: "undercuts 0 (speed (min_upload (speed_extremes (init 36000))))"
    and e: "speeds (init 36000) = []"
    by (simp_all add: init_def)
  note t = zero_speed_updates_extremes_only [of 0 5 36000 36030 "init 36000"]
  from t have "speeds (measure_and_log 36000 (Some (0, 5, 36030)) (init 36000)) = speeds (init 36000)"
    by blast
  with e have 1: "speeds (measure_and_log 36000 (Some (0, 5, 36030)) (init 36000)) = []"
    by simp
  from t a
  have 2: "min_download (speed_extremes (measure_and_log 36000 (Some (0, 5, 36030)) (init 36000))) =
     \<lparr>speed = Fin 0, ex_timestamp = Some 36030\<rparr>"
    by blast
  from zero_speed_updates_extremes_only [of 7 0 36000 36030 "init 36000"] b
  have 3: "min_upload (speed_extremes (measure_and_log 36000 (Some (7, 0, 36030)) (init 36000))) =
     \<lparr>speed = Fin 0, ex_timestamp = Some 36030\<rparr>"
    by blast
  from a b 1 2 3 show ?thesis by blast
qed

section \<open>The loop stays within the operations; nothing raises\<close>

text \<open>
  Every state that the loop of \<^verbatim>\<open>run\<close> returns comes from its start state by the
  operations of \<open>evolves\<close>, so what holds of all such states holds at the end of a
  run. The error branches of the model are dead: the guards of the source keep
  \<^verbatim>\<open>statistics.mean\<close>, \<^verbatim>\<open>idxmax\<close> and \<^verbatim>\<open>idxmin\<close> away from an empty argument.
\<close>

lemma evolves_trans: "evolves b c \<Longrightarrow> evolves a b \<Longrightarrow> evolves a c"
  by (induction rule: evolves.induct) (auto intro: evolves.intros)

lemma run_loop_evolves:
  "run_loop cycles st = Some (Inr st') \<Longrightarrow> evolves st st'"
proof (induction cycles arbitrary: st)
  case Nil
  then show ?case by (simp add: same)
next
  case (Cons c cycles)
  from Cons.prems obtain st1 where hc: "hour_change (cycle_time c) st = Inr st1"
    by (auto split: sum.splits)
  then have e1: "evolves st st1"
    by (rule by_hour_change [OF same])
  show ?case
  proof (cases c)
    case (Offline current_time disconnect_time answers reconnect_time)
    with Cons.prems hc obtain st2 where
      t: "track_disconnection disconnect_time answers reconnect_time st1 = Some st2"
      and r: "run_loop cycles st2 = Some (Inr st')"
      by (auto split: option.splits)
    from by_track [OF e1 t] Cons.IH [OF r] show ?thesis
      by (rule evolves_trans [rotated])
  next
    case (Online current_time outcome)
    with Cons.prems hc have r: "run_loop cycles (measure_and_log current_time outcome st1) = Some (Inr st')"
      by simp
    from by_log [OF e1] Cons.IH [OF r] show ?thesis
      by (rule evolves_trans [rotated])
  qed
qed

lemma analyze_patterns_never_raises: "\<exists>p. analyze_patterns st = Inr p"
proof (cases "speeds st = []")
  case True
  then show ?thesis by (simp add: analyze_patterns_def)
next
  case False
  then have ne: "groupby_hour_agg (speeds st) \<noteq> []"
    by (simp add: groupby_hour_agg_def group_keys_nonempty)
  obtain a where a: "idxmax (map (\<lambda>r. (pattern_hour r, download_mean r)) (groupby_hour_agg (speeds st))) = Inr a"
    using idxmax_returns ne by (metis map_is_Nil_conv)
  obtain b where b: "idxmax (map (\<lambda>r. (pattern_hour r, upload_mean r)) (groupby_hour_agg (speeds st))) = Inr b"
    using idxmax_returns ne by (metis map_is_Nil_conv)
  obtain c where c: "idxmin (map (\<lambda>r. (pattern_hour r, download_mean r)) (groupby_hour_agg (speeds st))) = Inr c"
    using idxmin_returns ne by (metis map_is_Nil_conv)
  obtain d where d: "idxmin (map (\<lambda>r. (pattern_hour r, upload_mean r)) (groupby_hour_agg (speeds st))) = Inr d"
    using idxmin_returns ne by (metis map_is_Nil_conv)
  from False a b c d show ?thesis
    by (simp add: analyze_patterns_def Let_def)
qed

lemma generate_report_never_raises: "\<exists>report. generate_report now st = Inr report"
proof -
  obtain p where "analyze_patterns st = Inr p"
    using analyze_patterns_never_raises by blast
  then show ?thesis by (simp add: generate_report_def Let_def)
qed

end
